theory Spec2Isabelle
  imports Complex_Main "HOL-Library.Char_ord" "HOL-Library.List_Lexorder"
begin

section \<open>Values crossing the HTTP and SQL boundaries\<close>

text \<open>
  Identifiers are UUIDs; the model takes them as abstract, well-formed identifiers.
  Timestamps are instants of the store's clock, dates are day numbers.
\<close>

type_synonym uuid = nat
type_synonym timestamp = nat
type_synonym date = int

text \<open>
  A field of a JSON request body, after destructuring: the key is missing
  (\<open>Undefined\<close>), is an explicit \<open>null\<close>, or carries a value of the column's type.
\<close>

datatype 'a js = Undefined | Null | Val 'a

text \<open>The driver sends both \<open>undefined\<close> and \<open>null\<close> as SQL NULL.\<close>

fun to_sql :: "'a js \<Rightarrow> 'a option" where
  "to_sql (Val v) = Some v"
| "to_sql Undefined = None"
| "to_sql Null = None"

text \<open>A destructuring default (\<open>status = 'prospect'\<close>) applies to a missing key only.\<close>

fun with_default :: "'a \<Rightarrow> 'a js \<Rightarrow> 'a js" where
  "with_default d Undefined = Val d"
| "with_default d Null = Null"
| "with_default d (Val v) = Val v"

text \<open>JavaScript truthiness of a string field: \<open>!name\<close> holds for a missing key,
  \<open>null\<close> and the empty string.\<close>

fun truthy :: "string js \<Rightarrow> bool" where
  "truthy (Val s) = (s \<noteq> [])"
| "truthy Undefined = False"
| "truthy Null = False"

text \<open>\<open>x || 'fallback'\<close> on a string field.\<close>

definition or_else :: "string js \<Rightarrow> string \<Rightarrow> string" where
  "or_else x d = (case x of Val s \<Rightarrow> if s = [] then d else s | Undefined \<Rightarrow> d | Null \<Rightarrow> d)"

text \<open>\<open>value || 0\<close> on an integer field.\<close>

fun or_zero :: "int js \<Rightarrow> int" where
  "or_zero (Val v) = v"
| "or_zero Undefined = 0"
| "or_zero Null = 0"

text \<open>
  A response that is not a success: the status code and the \<open>error\<close> string of the
  JSON body.
\<close>

datatype http_error = HttpError (status: nat) (message: string)

text \<open>The error taxonomy, by status code: 401, 404, 500, and 400 for validation,
  conflict and bad credentials alike.\<close>

definition is_Unauthorized :: "http_error \<Rightarrow> bool" where
  "is_Unauthorized e = (status e = 401)"



definition is_Conflict :: "http_error \<Rightarrow> bool" where
  "is_Conflict e = (status e = 400)"

definition is_InternalError :: "http_error \<Rightarrow> bool" where
  "is_InternalError e = (status e = 500)"

subsection \<open>SQL operators\<close>

text \<open>\<open>a = b\<close> in a WHERE clause selects a row only when both sides are non-NULL and
  equal.\<close>

fun sql_eq :: "'a option \<Rightarrow> 'a option \<Rightarrow> bool" where
  "sql_eq (Some a) (Some b) = (a = b)"
| "sql_eq None b = False"
| "sql_eq a None = False"

text \<open>LIKE: \<open>%\<close> matches any run of characters, \<open>_\<close> one character, a backslash
  takes the next pattern character literally.\<close>

fun like_match :: "string \<Rightarrow> string \<Rightarrow> bool" where
  "like_match [] s = (s = [])"
| "like_match (p # ps) s =
     (if p = CHR ''%'' then
        like_match ps s \<or> (case s of [] \<Rightarrow> False | c # t \<Rightarrow> like_match (p # ps) t)
      else if p = CHR ''_'' then
        (case s of [] \<Rightarrow> False | c # t \<Rightarrow> like_match ps t)
      else if p = CHR 0x5C then
        (case ps of [] \<Rightarrow> False
         | e # ps' \<Rightarrow> (case s of [] \<Rightarrow> False | c # t \<Rightarrow> c = e \<and> like_match ps' t))
      else
        (case s of [] \<Rightarrow> False | c # t \<Rightarrow> c = p \<and> like_match ps t))"

definition lower_char :: "char \<Rightarrow> char" where
  "lower_char c =
     (if CHR ''A'' \<le> c \<and> c \<le> CHR ''Z'' then char_of (of_char c + (32::nat)) else c)"

text \<open>\<open>column ILIKE pattern\<close>: case-insensitive LIKE; NULL never matches.\<close>

definition ilike :: "string option \<Rightarrow> string \<Rightarrow> bool" where
  "ilike col pat =
     (case col of None \<Rightarrow> False
      | Some s \<Rightarrow> like_match (map lower_char pat) (map lower_char s))"

text \<open>The pattern the routes build from the \<open>search\<close> parameter.\<close>

definition search_pattern :: "string \<Rightarrow> string" where
  "search_pattern search = ''%'' @ search @ ''%''"

text \<open>ORDER BY as a stable insertion sort along a comparison; rows that compare
  equal keep their table order, which SQL leaves open.\<close>

fun insort_by :: "('a \<Rightarrow> 'a \<Rightarrow> bool) \<Rightarrow> 'a \<Rightarrow> 'a list \<Rightarrow> 'a list" where
  "insort_by le x [] = [x]"
| "insort_by le x (y # ys) = (if le x y then x # y # ys else y # insort_by le x ys)"

definition order_by :: "('a \<Rightarrow> 'a \<Rightarrow> bool) \<Rightarrow> 'a list \<Rightarrow> 'a list" where
  "order_by le xs = foldr (insort_by le) xs []"

text \<open>
  The \<open>limit\<close> query parameter after \<open>parseInt\<close>: missing (the default 100 applies),
  an integer, or NaN. The store rejects NaN, a negative LIMIT and one beyond its
  64-bit integers.
\<close>

datatype limit_param = LimitMissing | LimitInt int | LimitNaN

fun sql_limit :: "limit_param \<Rightarrow> nat option" where
  "sql_limit LimitMissing = Some 100"
| "sql_limit (LimitInt n) =
     (if 0 \<le> n \<and> n \<le> 9223372036854775807 then Some (nat n) else None)"
| "sql_limit LimitNaN = None"

text \<open>Column constraints: \<open>VARCHAR(n)\<close> and the 32-bit \<open>INTEGER\<close>.\<close>

definition varchar :: "nat \<Rightarrow> string option \<Rightarrow> bool" where
  "varchar n col = (case col of None \<Rightarrow> True | Some s \<Rightarrow> length s \<le> n)"

definition int4 :: "int option \<Rightarrow> bool" where
  "int4 col = (case col of None \<Rightarrow> True | Some v \<Rightarrow> - 2147483648 \<le> v \<and> v \<le> 2147483647)"

definition not_null :: "'a option \<Rightarrow> bool" where
  "not_null col = (col \<noteq> None)"

section \<open>The persisted schema\<close>

text \<open>
  One record per table of the migration, one field per column. A nullable column is
  an \<open>option\<close>; NOT NULL, VARCHAR and CHECK are the \<open>row_ok\<close> predicates the store
  evaluates on every written row. Primary keys and the two timestamp columns, which
  no statement of the routes writes as NULL, carry plain values.
\<close>

record company =
  co_id :: uuid
  co_name :: "string option"
  co_plan :: "string option"
  co_settings :: "string option"
  co_created_at :: timestamp
  co_updated_at :: timestamp

record user =
  u_id :: uuid
  u_email :: "string option"
  u_password_hash :: "string option"
  u_name :: "string option"
  u_company_id :: "uuid option"
  u_role :: "string option"
  u_is_active :: "bool option"
  u_last_login :: "timestamp option"
  u_created_at :: timestamp
  u_updated_at :: timestamp

record contact =
  c_id :: uuid
  c_company_id :: "uuid option"
  c_name :: "string option"
  c_email :: "string option"
  c_phone :: "string option"
  c_position :: "string option"
  c_company_name :: "string option"
  c_status :: "string option"
  c_value :: "int option"
  c_notes :: "string option"
  c_last_contact :: "date option"
  c_tags :: "string list option"
  c_created_at :: timestamp
  c_updated_at :: timestamp

record lead =
  l_id :: uuid
  l_company_id :: "uuid option"
  l_title :: "string option"
  l_company_name :: "string option"
  l_contact_name :: "string option"
  l_value :: "int option"
  l_stage :: "string option"
  l_probability :: "int option"
  l_expected_close :: "date option"
  l_source :: "string option"
  l_notes :: "string option"
  l_tags :: "string list option"
  l_created_at :: timestamp
  l_updated_at :: timestamp

record task =
  t_id :: uuid
  t_company_id :: "uuid option"
  t_contact_id :: "uuid option"
  t_title :: "string option"
  t_description :: "string option"
  t_due_date :: "date option"
  t_priority :: "string option"
  t_status :: "string option"
  t_created_at :: timestamp
  t_updated_at :: timestamp

record db =
  companies :: "company list"
  users :: "user list"
  contacts :: "contact list"
  leads :: "lead list"
  tasks :: "task list"

definition companies_row_ok :: "company \<Rightarrow> bool" where
  "companies_row_ok r = (not_null (co_name r) \<and> varchar 255 (co_name r) \<and> varchar 50 (co_plan r))"

definition users_row_ok :: "user \<Rightarrow> bool" where
  "users_row_ok r =
     (not_null (u_email r) \<and> varchar 255 (u_email r) \<and>
      not_null (u_password_hash r) \<and> varchar 255 (u_password_hash r) \<and>
      not_null (u_name r) \<and> varchar 255 (u_name r) \<and> varchar 50 (u_role r))"

definition contacts_row_ok :: "contact \<Rightarrow> bool" where
  "contacts_row_ok r =
     (not_null (c_name r) \<and> varchar 255 (c_name r) \<and> varchar 255 (c_email r) \<and>
      varchar 50 (c_phone r) \<and> varchar 255 (c_position r) \<and>
      varchar 255 (c_company_name r) \<and> varchar 50 (c_status r) \<and> int4 (c_value r))"

text \<open>A CHECK constraint passes when its condition is true or NULL.\<close>

definition probability_check :: "int option \<Rightarrow> bool" where
  "probability_check p = (case p of None \<Rightarrow> True | Some v \<Rightarrow> 0 \<le> v \<and> v \<le> 100)"

definition leads_row_ok :: "lead \<Rightarrow> bool" where
  "leads_row_ok r =
     (not_null (l_title r) \<and> varchar 255 (l_title r) \<and> varchar 255 (l_company_name r) \<and>
      varchar 255 (l_contact_name r) \<and> int4 (l_value r) \<and> varchar 50 (l_stage r) \<and>
      int4 (l_probability r) \<and> probability_check (l_probability r) \<and>
      varchar 100 (l_source r))"

definition priority_check :: "string option \<Rightarrow> bool" where
  "priority_check p =
     (case p of None \<Rightarrow> True | Some v \<Rightarrow> v \<in> set [''low'', ''medium'', ''high''])"

definition status_check :: "string option \<Rightarrow> bool" where
  "status_check p =
     (case p of None \<Rightarrow> True
      | Some v \<Rightarrow> v \<in> set [''pending'', ''in-progress'', ''completed'', ''cancelled''])"

definition tasks_row_ok :: "task \<Rightarrow> bool" where
  "tasks_row_ok r =
     (not_null (t_title r) \<and> varchar 255 (t_title r) \<and>
      varchar 20 (t_priority r) \<and> priority_check (t_priority r) \<and>
      varchar 20 (t_status r) \<and> status_check (t_status r))"

text \<open>The foreign keys: a non-NULL reference names an existing row.\<close>

definition fk_company :: "db \<Rightarrow> uuid option \<Rightarrow> bool" where
  "fk_company d ref = (case ref of None \<Rightarrow> True | Some i \<Rightarrow> i \<in> set (map co_id (companies d)))"

definition fk_contact :: "db \<Rightarrow> uuid option \<Rightarrow> bool" where
  "fk_contact d ref = (case ref of None \<Rightarrow> True | Some i \<Rightarrow> i \<in> set (map c_id (contacts d)))"

text \<open>A query-string parameter counts as given when it is a non-empty string.\<close>

definition given :: "string option \<Rightarrow> bool" where
  "given p = (case p of None \<Rightarrow> False | Some s \<Rightarrow> s \<noteq> [])"

section \<open>Contacts (routes/contacts.js)\<close>

text \<open>The columns \<open>GET /contacts\<close> selects.\<close>

record contact_view =
  cv_id :: uuid
  cv_name :: "string option"
  cv_email :: "string option"
  cv_phone :: "string option"
  cv_position :: "string option"
  cv_company_name :: "string option"
  cv_status :: "string option"
  cv_value :: "int option"
  cv_notes :: "string option"
  cv_last_contact :: "date option"
  cv_created_at :: timestamp
  cv_updated_at :: timestamp

definition contact_view :: "contact \<Rightarrow> contact_view" where
  "contact_view r =
     \<lparr>cv_id = c_id r, cv_name = c_name r, cv_email = c_email r, cv_phone = c_phone r,
      cv_position = c_position r, cv_company_name = c_company_name r,
      cv_status = c_status r, cv_value = c_value r, cv_notes = c_notes r,
      cv_last_contact = c_last_contact r, cv_created_at = c_created_at r,
      cv_updated_at = c_updated_at r\<rparr>"

record contact_query =
  cq_search :: "string option"
  cq_status :: "string option"
  cq_limit :: limit_param

record contact_body =
  cb_name :: "string js"
  cb_email :: "string js"
  cb_phone :: "string js"
  cb_position :: "string js"
  cb_company_name :: "string js"
  cb_value :: "int js"
  cb_notes :: "string js"
  cb_status :: "string js"

text \<open>The WHERE clause of \<open>GET /contacts\<close>, built from the parameters given.\<close>

definition contacts_where :: "uuid option \<Rightarrow> contact_query \<Rightarrow> contact \<Rightarrow> bool" where
  "contacts_where company_id q r =
     (sql_eq (c_company_id r) company_id \<and>
      (case cq_search q of None \<Rightarrow> True
       | Some s \<Rightarrow> s = [] \<or> ilike (c_name r) (search_pattern s) \<or>
           ilike (c_email r) (search_pattern s) \<or>
           ilike (c_company_name r) (search_pattern s)) \<and>
      (case cq_status q of None \<Rightarrow> True
       | Some s \<Rightarrow> s = [] \<or> sql_eq (c_status r) (Some s)))"

definition cv_newest_first :: "contact_view \<Rightarrow> contact_view \<Rightarrow> bool" where
  "cv_newest_first a b = (cv_created_at b \<le> cv_created_at a)"

definition contacts_get_all ::
  "uuid option \<Rightarrow> contact_query \<Rightarrow> db \<Rightarrow> http_error + contact_view list" where
  "contacts_get_all company_id q d =
     (case sql_limit (cq_limit q) of
        None \<Rightarrow> Inl (HttpError 500 ''Failed to fetch contacts'')
      | Some n \<Rightarrow>
          Inr (take n (order_by cv_newest_first
                 (map contact_view (filter (contacts_where company_id q) (contacts d))))))"

definition contacts_match :: "uuid \<Rightarrow> uuid option \<Rightarrow> contact \<Rightarrow> bool" where
  "contacts_match i company_id r = (c_id r = i \<and> sql_eq (c_company_id r) company_id)"

definition contacts_get_one :: "uuid option \<Rightarrow> uuid \<Rightarrow> db \<Rightarrow> http_error + contact" where
  "contacts_get_one company_id i d =
     (case filter (contacts_match i company_id) (contacts d) of
        [] \<Rightarrow> Inl (HttpError 404 ''Contact not found'')
      | r # rs \<Rightarrow> Inr r)"

text \<open>
  \<open>POST /contacts\<close>. \<open>new_id\<close> is what \<open>uuidv4()\<close> returns, \<open>now\<close> and \<open>today\<close> are the
  store's NOW() and CURRENT_DATE. A statement the store rejects (duplicate key,
  violated constraint) throws, and the handler answers 500 with nothing written.
\<close>

definition contacts_new_row ::
  "uuid \<Rightarrow> timestamp \<Rightarrow> date \<Rightarrow> uuid option \<Rightarrow> contact_body \<Rightarrow> contact" where
  "contacts_new_row new_id now today company_id body =
     \<lparr>c_id = new_id, c_company_id = company_id,
      c_name = to_sql (cb_name body), c_email = to_sql (cb_email body),
      c_phone = to_sql (cb_phone body), c_position = to_sql (cb_position body),
      c_company_name = to_sql (cb_company_name body),
      c_status = to_sql (with_default ''prospect'' (cb_status body)),
      c_value = Some (or_zero (cb_value body)),
      c_notes = to_sql (cb_notes body), c_last_contact = Some today,
      c_tags = Some [], c_created_at = now, c_updated_at = now\<rparr>"

definition contacts_post ::
  "uuid \<Rightarrow> timestamp \<Rightarrow> date \<Rightarrow> uuid option \<Rightarrow> contact_body \<Rightarrow> db \<Rightarrow> (http_error + contact) \<times> db" where
  "contacts_post new_id now today company_id body d =
     (if \<not> truthy (cb_name body) then (Inl (HttpError 400 ''Name is required''), d)
      else
        let row = contacts_new_row new_id now today company_id body
        in if new_id \<in> set (map c_id (contacts d)) \<or> \<not> fk_company d company_id \<or>
              \<not> contacts_row_ok row
           then (Inl (HttpError 500 ''Failed to create contact''), d)
           else (Inr row, d\<lparr>contacts := contacts d @ [row]\<rparr>))"

text \<open>The SET clause of \<open>PUT /contacts/:id\<close>.\<close>

definition contacts_set :: "timestamp \<Rightarrow> contact_body \<Rightarrow> contact \<Rightarrow> contact" where
  "contacts_set now body r =
     r\<lparr>c_name := to_sql (cb_name body), c_email := to_sql (cb_email body),
       c_phone := to_sql (cb_phone body), c_position := to_sql (cb_position body),
       c_company_name := to_sql (cb_company_name body), c_value := to_sql (cb_value body),
       c_notes := to_sql (cb_notes body), c_status := to_sql (cb_status body),
       c_updated_at := now\<rparr>"

definition contacts_put ::
  "timestamp \<Rightarrow> uuid option \<Rightarrow> uuid \<Rightarrow> contact_body \<Rightarrow> db \<Rightarrow> (http_error + contact) \<times> db" where
  "contacts_put now company_id i body d =
     (let returning = map (contacts_set now body)
                        (filter (contacts_match i company_id) (contacts d))
      in if \<not> list_all contacts_row_ok returning
         then (Inl (HttpError 500 ''Failed to update contact''), d)
         else (case returning of
                 [] \<Rightarrow> (Inl (HttpError 404 ''Contact not found''), d)
               | r # rs \<Rightarrow>
                   (Inr r,
                    d\<lparr>contacts := map (\<lambda>r. if contacts_match i company_id r
                                           then contacts_set now body r else r)
                                    (contacts d)\<rparr>)))"

text \<open>
  \<open>DELETE /contacts/:id\<close>. The foreign key \<open>tasks.contact_id\<close> is ON DELETE SET NULL:
  the tasks naming a deleted contact are updated, which fires their
  \<open>updated_at\<close> trigger.
\<close>

definition on_delete_set_null :: "timestamp \<Rightarrow> uuid \<Rightarrow> task \<Rightarrow> task" where
  "on_delete_set_null now i t =
     (if t_contact_id t = Some i then t\<lparr>t_contact_id := None, t_updated_at := now\<rparr> else t)"

definition contacts_delete ::
  "timestamp \<Rightarrow> uuid option \<Rightarrow> uuid \<Rightarrow> db \<Rightarrow> (http_error + string) \<times> db" where
  "contacts_delete now company_id i d =
     (case filter (contacts_match i company_id) (contacts d) of
        [] \<Rightarrow> (Inl (HttpError 404 ''Contact not found''), d)
      | r # rs \<Rightarrow>
          (Inr ''Contact deleted successfully'',
           d\<lparr>contacts := filter (\<lambda>r. \<not> contacts_match i company_id r) (contacts d),
             tasks := map (on_delete_set_null now i) (tasks d)\<rparr>))"

section \<open>Leads (the leads router)\<close>

record lead_view =
  lv_id :: uuid
  lv_title :: "string option"
  lv_company_name :: "string option"
  lv_contact_name :: "string option"
  lv_value :: "int option"
  lv_stage :: "string option"
  lv_probability :: "int option"
  lv_expected_close :: "date option"
  lv_source :: "string option"
  lv_notes :: "string option"
  lv_created_at :: timestamp
  lv_updated_at :: timestamp

definition lead_view :: "lead \<Rightarrow> lead_view" where
  "lead_view r =
     \<lparr>lv_id = l_id r, lv_title = l_title r, lv_company_name = l_company_name r,
      lv_contact_name = l_contact_name r, lv_value = l_value r, lv_stage = l_stage r,
      lv_probability = l_probability r, lv_expected_close = l_expected_close r,
      lv_source = l_source r, lv_notes = l_notes r, lv_created_at = l_created_at r,
      lv_updated_at = l_updated_at r\<rparr>"

record lead_query =
  lq_search :: "string option"
  lq_stage :: "string option"
  lq_limit :: limit_param

record lead_body =
  lb_title :: "string js"
  lb_company_name :: "string js"
  lb_contact_name :: "string js"
  lb_value :: "int js"
  lb_stage :: "string js"
  lb_probability :: "int js"
  lb_expected_close :: "date js"
  lb_source :: "string js"
  lb_notes :: "string js"

definition leads_where :: "uuid option \<Rightarrow> lead_query \<Rightarrow> lead \<Rightarrow> bool" where
  "leads_where company_id q r =
     (sql_eq (l_company_id r) company_id \<and>
      (case lq_search q of None \<Rightarrow> True
       | Some s \<Rightarrow> s = [] \<or> ilike (l_title r) (search_pattern s) \<or>
           ilike (l_company_name r) (search_pattern s) \<or>
           ilike (l_contact_name r) (search_pattern s)) \<and>
      (case lq_stage q of None \<Rightarrow> True
       | Some s \<Rightarrow> s = [] \<or> sql_eq (l_stage r) (Some s)))"

definition lv_newest_first :: "lead_view \<Rightarrow> lead_view \<Rightarrow> bool" where
  "lv_newest_first a b = (lv_created_at b \<le> lv_created_at a)"

definition leads_get_all ::
  "uuid option \<Rightarrow> lead_query \<Rightarrow> db \<Rightarrow> http_error + lead_view list" where
  "leads_get_all company_id q d =
     (case sql_limit (lq_limit q) of
        None \<Rightarrow> Inl (HttpError 500 ''Failed to fetch leads'')
      | Some n \<Rightarrow>
          Inr (take n (order_by lv_newest_first
                 (map lead_view (filter (leads_where company_id q) (leads d))))))"

definition leads_match :: "uuid \<Rightarrow> uuid option \<Rightarrow> lead \<Rightarrow> bool" where
  "leads_match i company_id r = (l_id r = i \<and> sql_eq (l_company_id r) company_id)"

definition leads_get_one :: "uuid option \<Rightarrow> uuid \<Rightarrow> db \<Rightarrow> http_error + lead" where
  "leads_get_one company_id i d =
     (case filter (leads_match i company_id) (leads d) of
        [] \<Rightarrow> Inl (HttpError 404 ''Lead not found'')
      | r # rs \<Rightarrow> Inr r)"

text \<open>\<open>POST /leads\<close>: the probability of the payload (10 when the key is missing) goes
  to the store as it is.\<close>

definition leads_new_row :: "uuid \<Rightarrow> timestamp \<Rightarrow> uuid option \<Rightarrow> lead_body \<Rightarrow> lead" where
  "leads_new_row new_id now company_id body =
     \<lparr>l_id = new_id, l_company_id = company_id,
      l_title = to_sql (lb_title body),
      l_company_name = to_sql (lb_company_name body),
      l_contact_name = to_sql (lb_contact_name body),
      l_value = Some (or_zero (lb_value body)),
      l_stage = to_sql (with_default ''lead'' (lb_stage body)),
      l_probability = to_sql (with_default 10 (lb_probability body)),
      l_expected_close = to_sql (lb_expected_close body),
      l_source = to_sql (lb_source body), l_notes = to_sql (lb_notes body),
      l_tags = Some [], l_created_at = now, l_updated_at = now\<rparr>"

definition leads_post ::
  "uuid \<Rightarrow> timestamp \<Rightarrow> uuid option \<Rightarrow> lead_body \<Rightarrow> db \<Rightarrow> (http_error + lead) \<times> db" where
  "leads_post new_id now company_id body d =
     (if \<not> truthy (lb_title body) then (Inl (HttpError 400 ''Title is required''), d)
      else
        let row = leads_new_row new_id now company_id body
        in if new_id \<in> set (map l_id (leads d)) \<or> \<not> fk_company d company_id \<or>
              \<not> leads_row_ok row
           then (Inl (HttpError 500 ''Failed to create lead''), d)
           else (Inr row, d\<lparr>leads := leads d @ [row]\<rparr>))"

definition leads_set :: "timestamp \<Rightarrow> lead_body \<Rightarrow> lead \<Rightarrow> lead" where
  "leads_set now body r =
     r\<lparr>l_title := to_sql (lb_title body), l_company_name := to_sql (lb_company_name body),
       l_contact_name := to_sql (lb_contact_name body), l_value := to_sql (lb_value body),
       l_stage := to_sql (lb_stage body), l_probability := to_sql (lb_probability body),
       l_expected_close := to_sql (lb_expected_close body),
       l_source := to_sql (lb_source body), l_notes := to_sql (lb_notes body),
       l_updated_at := now\<rparr>"

definition leads_put ::
  "timestamp \<Rightarrow> uuid option \<Rightarrow> uuid \<Rightarrow> lead_body \<Rightarrow> db \<Rightarrow> (http_error + lead) \<times> db" where
  "leads_put now company_id i body d =
     (let returning = map (leads_set now body) (filter (leads_match i company_id) (leads d))
      in if \<not> list_all leads_row_ok returning
         then (Inl (HttpError 500 ''Failed to update lead''), d)
         else (case returning of
                 [] \<Rightarrow> (Inl (HttpError 404 ''Lead not found''), d)
               | r # rs \<Rightarrow>
                   (Inr r,
                    d\<lparr>leads := map (\<lambda>r. if leads_match i company_id r
                                        then leads_set now body r else r)
                                 (leads d)\<rparr>)))"

definition leads_delete ::
  "uuid option \<Rightarrow> uuid \<Rightarrow> db \<Rightarrow> (http_error + string) \<times> db" where
  "leads_delete company_id i d =
     (case filter (leads_match i company_id) (leads d) of
        [] \<Rightarrow> (Inl (HttpError 404 ''Lead not found''), d)
      | r # rs \<Rightarrow>
          (Inr ''Lead deleted successfully'',
           d\<lparr>leads := filter (\<lambda>r. \<not> leads_match i company_id r) (leads d)\<rparr>))"

subsection \<open>The pipeline statistics\<close>

text \<open>SUM and AVG skip NULLs and are NULL over no value at all; AVG of integers is an
  exact quotient here (the store rounds it to its numeric scale).\<close>

definition non_null :: "'a option list \<Rightarrow> 'a list" where
  "non_null vs = map the (filter (\<lambda>v. v \<noteq> None) vs)"

definition sql_sum :: "int option list \<Rightarrow> int option" where
  "sql_sum vs = (case non_null vs of [] \<Rightarrow> None | w # ws \<Rightarrow> Some (sum_list (w # ws)))"

definition sql_avg :: "int option list \<Rightarrow> rat option" where
  "sql_avg vs =
     (case non_null vs of [] \<Rightarrow> None
      | w # ws \<Rightarrow> Some (of_int (sum_list (w # ws)) / of_int (int (length (w # ws)))))"

record pipeline_row =
  pl_stage :: "string option"
  pl_count :: nat
  pl_total_value :: "int option"
  pl_avg_probability :: "rat option"

text \<open>The CASE of the ORDER BY clause; a NULL stage equals no WHEN value.\<close>

definition stage_rank :: "string option \<Rightarrow> nat" where
  "stage_rank s =
     (if s = Some ''lead'' then 1
      else if s = Some ''qualified'' then 2
      else if s = Some ''proposal'' then 3
      else if s = Some ''negotiation'' then 4
      else if s = Some ''closed-won'' then 5
      else if s = Some ''closed-lost'' then 6
      else 7)"

definition by_stage_rank :: "pipeline_row \<Rightarrow> pipeline_row \<Rightarrow> bool" where
  "by_stage_rank a b = (stage_rank (pl_stage a) \<le> stage_rank (pl_stage b))"

text \<open>GROUP BY stage: one group per distinct value, NULL forming a group of its own.\<close>

definition pipeline_group :: "lead list \<Rightarrow> string option \<Rightarrow> pipeline_row" where
  "pipeline_group rows s =
     (let members = filter (\<lambda>r. l_stage r = s) rows
      in \<lparr>pl_stage = s, pl_count = length members,
          pl_total_value = sql_sum (map l_value members),
          pl_avg_probability = sql_avg (map l_probability members)\<rparr>)"

definition leads_stats_pipeline :: "uuid option \<Rightarrow> db \<Rightarrow> http_error + pipeline_row list" where
  "leads_stats_pipeline company_id d =
     (let rows = filter (\<lambda>r. sql_eq (l_company_id r) company_id) (leads d)
      in Inr (order_by by_stage_rank
                (map (pipeline_group rows) (remdups (map l_stage rows)))))"

section \<open>Tasks (the tasks router)\<close>

text \<open>The columns \<open>GET /tasks\<close> selects: those of the task and the joined contact's
  name.\<close>

record task_view =
  tv_id :: uuid
  tv_title :: "string option"
  tv_description :: "string option"
  tv_due_date :: "date option"
  tv_priority :: "string option"
  tv_status :: "string option"
  tv_contact_id :: "uuid option"
  tv_created_at :: timestamp
  tv_updated_at :: timestamp
  tv_contact_name :: "string option"

definition task_view :: "task \<times> string option \<Rightarrow> task_view" where
  "task_view j =
     (case j of (t, n) \<Rightarrow>
        \<lparr>tv_id = t_id t, tv_title = t_title t, tv_description = t_description t,
         tv_due_date = t_due_date t, tv_priority = t_priority t, tv_status = t_status t,
         tv_contact_id = t_contact_id t, tv_created_at = t_created_at t,
         tv_updated_at = t_updated_at t, tv_contact_name = n\<rparr>)"

record task_query =
  tq_search :: "string option"
  tq_status :: "string option"
  tq_priority :: "string option"
  tq_limit :: limit_param

record task_body =
  tb_title :: "string js"
  tb_description :: "string js"
  tb_due_date :: "date js"
  tb_priority :: "string js"
  tb_status :: "string js"
  tb_contact_id :: "uuid js"

text \<open>\<open>tasks t LEFT JOIN contacts c ON t.contact_id = c.id\<close>: one row per matching
  contact, and one with a NULL name when there is none.\<close>

definition left_join_contacts :: "db \<Rightarrow> task \<Rightarrow> (task \<times> string option) list" where
  "left_join_contacts d t =
     (case filter (\<lambda>c. sql_eq (t_contact_id t) (Some (c_id c))) (contacts d) of
        [] \<Rightarrow> [(t, None)]
      | c # cs \<Rightarrow> map (\<lambda>c. (t, c_name c)) (c # cs))"

definition tasks_joined :: "db \<Rightarrow> (task \<times> string option) list" where
  "tasks_joined d = concat (map (left_join_contacts d) (tasks d))"

definition tasks_where :: "uuid option \<Rightarrow> task_query \<Rightarrow> task \<Rightarrow> bool" where
  "tasks_where company_id q t =
     (sql_eq (t_company_id t) company_id \<and>
      (case tq_search q of None \<Rightarrow> True
       | Some s \<Rightarrow> s = [] \<or> ilike (t_title t) (search_pattern s) \<or>
           ilike (t_description t) (search_pattern s)) \<and>
      (case tq_status q of None \<Rightarrow> True
       | Some s \<Rightarrow> s = [] \<or> sql_eq (t_status t) (Some s)) \<and>
      (case tq_priority q of None \<Rightarrow> True
       | Some s \<Rightarrow> s = [] \<or> sql_eq (t_priority t) (Some s)))"

text \<open>The CASE of the ORDER BY clause has no ELSE: any other priority, and NULL,
  rank as NULL.\<close>

definition priority_rank :: "string option \<Rightarrow> nat option" where
  "priority_rank p =
     (if p = Some ''high'' then Some 1
      else if p = Some ''medium'' then Some 2
      else if p = Some ''low'' then Some 3
      else None)"

text \<open>Strictly earlier under ASC, where NULLs come last.\<close>

definition nulls_last_less :: "('a::linorder) option \<Rightarrow> 'a option \<Rightarrow> bool" where
  "nulls_last_less a b =
     (case a of None \<Rightarrow> False
      | Some x \<Rightarrow> (case b of None \<Rightarrow> True | Some y \<Rightarrow> x < y))"

text \<open>\<open>ORDER BY CASE t.priority ... END, t.due_date ASC NULLS LAST, t.created_at DESC\<close>:
  \<open>a\<close> may stand before \<open>b\<close>.\<close>

definition tv_order :: "task_view \<Rightarrow> task_view \<Rightarrow> bool" where
  "tv_order a b =
     (nulls_last_less (priority_rank (tv_priority a)) (priority_rank (tv_priority b)) \<or>
      (priority_rank (tv_priority a) = priority_rank (tv_priority b) \<and>
       (nulls_last_less (tv_due_date a) (tv_due_date b) \<or>
        (tv_due_date a = tv_due_date b \<and> tv_created_at b \<le> tv_created_at a))))"

definition tasks_get_all ::
  "uuid option \<Rightarrow> task_query \<Rightarrow> db \<Rightarrow> http_error + task_view list" where
  "tasks_get_all company_id q d =
     (case sql_limit (tq_limit q) of
        None \<Rightarrow> Inl (HttpError 500 ''Failed to fetch tasks'')
      | Some n \<Rightarrow>
          Inr (take n (order_by tv_order
                 (map task_view
                    (filter (\<lambda>j. tasks_where company_id q (fst j)) (tasks_joined d))))))"

definition tasks_match :: "uuid \<Rightarrow> uuid option \<Rightarrow> task \<Rightarrow> bool" where
  "tasks_match i company_id t = (t_id t = i \<and> sql_eq (t_company_id t) company_id)"

definition tasks_get_one ::
  "uuid option \<Rightarrow> uuid \<Rightarrow> db \<Rightarrow> http_error + task \<times> string option" where
  "tasks_get_one company_id i d =
     (case filter (\<lambda>j. tasks_match i company_id (fst j)) (tasks_joined d) of
        [] \<Rightarrow> Inl (HttpError 404 ''Task not found'')
      | j # js \<Rightarrow> Inr j)"

text \<open>
  ``Verify contact belongs to same company if provided'': the check runs when
  \<open>contact_id\<close> is truthy, which an identifier always is.
\<close>

definition contact_belongs :: "uuid option \<Rightarrow> uuid js \<Rightarrow> db \<Rightarrow> bool" where
  "contact_belongs company_id contact_id d =
     (case contact_id of
        Val c \<Rightarrow> filter (contacts_match c company_id) (contacts d) \<noteq> []
      | Undefined \<Rightarrow> True
      | Null \<Rightarrow> True)"

definition tasks_new_row :: "uuid \<Rightarrow> timestamp \<Rightarrow> uuid option \<Rightarrow> task_body \<Rightarrow> task" where
  "tasks_new_row new_id now company_id body =
     \<lparr>t_id = new_id, t_company_id = company_id,
      t_contact_id = to_sql (tb_contact_id body),
      t_title = to_sql (tb_title body),
      t_description = to_sql (tb_description body),
      t_due_date = to_sql (tb_due_date body),
      t_priority = to_sql (with_default ''medium'' (tb_priority body)),
      t_status = to_sql (with_default ''pending'' (tb_status body)),
      t_created_at = now, t_updated_at = now\<rparr>"

definition tasks_post ::
  "uuid \<Rightarrow> timestamp \<Rightarrow> uuid option \<Rightarrow> task_body \<Rightarrow> db \<Rightarrow> (http_error + task) \<times> db" where
  "tasks_post new_id now company_id body d =
     (if \<not> truthy (tb_title body) then (Inl (HttpError 400 ''Title is required''), d)
      else if \<not> contact_belongs company_id (tb_contact_id body) d
      then (Inl (HttpError 400 ''Invalid contact ID''), d)
      else
        let row = tasks_new_row new_id now company_id body
        in if new_id \<in> set (map t_id (tasks d)) \<or> \<not> fk_company d company_id \<or>
              \<not> fk_contact d (t_contact_id row) \<or> \<not> tasks_row_ok row
           then (Inl (HttpError 500 ''Failed to create task''), d)
           else (Inr row, d\<lparr>tasks := tasks d @ [row]\<rparr>))"

definition tasks_set :: "timestamp \<Rightarrow> task_body \<Rightarrow> task \<Rightarrow> task" where
  "tasks_set now body t =
     t\<lparr>t_title := to_sql (tb_title body), t_description := to_sql (tb_description body),
       t_due_date := to_sql (tb_due_date body), t_priority := to_sql (tb_priority body),
       t_status := to_sql (tb_status body), t_contact_id := to_sql (tb_contact_id body),
       t_updated_at := now\<rparr>"

definition tasks_put ::
  "timestamp \<Rightarrow> uuid option \<Rightarrow> uuid \<Rightarrow> task_body \<Rightarrow> db \<Rightarrow> (http_error + task) \<times> db" where
  "tasks_put now company_id i body d =
     (if \<not> contact_belongs company_id (tb_contact_id body) d
      then (Inl (HttpError 400 ''Invalid contact ID''), d)
      else
        let returning = map (tasks_set now body) (filter (tasks_match i company_id) (tasks d))
        in if \<not> list_all (\<lambda>t. tasks_row_ok t \<and> fk_contact d (t_contact_id t)) returning
           then (Inl (HttpError 500 ''Failed to update task''), d)
           else (case returning of
                   [] \<Rightarrow> (Inl (HttpError 404 ''Task not found''), d)
                 | t # ts \<Rightarrow>
                     (Inr t,
                      d\<lparr>tasks := map (\<lambda>t. if tasks_match i company_id t
                                          then tasks_set now body t else t)
                                   (tasks d)\<rparr>)))"

definition tasks_delete ::
  "uuid option \<Rightarrow> uuid \<Rightarrow> db \<Rightarrow> (http_error + string) \<times> db" where
  "tasks_delete company_id i d =
     (case filter (tasks_match i company_id) (tasks d) of
        [] \<Rightarrow> (Inl (HttpError 404 ''Task not found''), d)
      | t # ts \<Rightarrow>
          (Inr ''Task deleted successfully'',
           d\<lparr>tasks := filter (\<lambda>t. \<not> tasks_match i company_id t) (tasks d)\<rparr>))"

subsection \<open>The task statistics\<close>

record overview_row =
  ov_status :: "string option"
  ov_priority :: "string option"
  ov_count :: nat

text \<open>\<open>ORDER BY status, priority\<close>: the text order of the two columns (bytewise here),
  NULLs last.\<close>

definition ov_order :: "overview_row \<Rightarrow> overview_row \<Rightarrow> bool" where
  "ov_order a b =
     (nulls_last_less (ov_status a) (ov_status b) \<or>
      (ov_status a = ov_status b \<and>
       (nulls_last_less (ov_priority a) (ov_priority b) \<or> ov_priority a = ov_priority b)))"

definition overview_group :: "task list \<Rightarrow> string option \<times> string option \<Rightarrow> overview_row" where
  "overview_group rows g =
     \<lparr>ov_status = fst g, ov_priority = snd g,
      ov_count = length (filter (\<lambda>t. (t_status t, t_priority t) = g) rows)\<rparr>"

definition tasks_stats_overview :: "uuid option \<Rightarrow> db \<Rightarrow> http_error + overview_row list" where
  "tasks_stats_overview company_id d =
     (let rows = filter (\<lambda>t. sql_eq (t_company_id t) company_id) (tasks d)
      in Inr (order_by ov_order
                (map (overview_group rows)
                   (remdups (map (\<lambda>t. (t_status t, t_priority t)) rows)))))"

section \<open>The auth middleware\<close>

record request_headers =
  x_auth_token :: "string option"
  authorization :: "string option"

text \<open>\<open>String.prototype.replace\<close> with a string pattern: the first occurrence only.\<close>

fun replace_first :: "string \<Rightarrow> string \<Rightarrow> string \<Rightarrow> string" where
  "replace_first pat rep [] = (if pat = [] then rep else [])"
| "replace_first pat rep (c # cs) =
     (if take (length pat) (c # cs) = pat then rep @ drop (length pat) (c # cs)
      else c # replace_first pat rep cs)"

text \<open>\<open>req.header('x-auth-token') || req.header('Authorization')?.replace('Bearer ', '')\<close>\<close>

definition extract_token :: "request_headers \<Rightarrow> string option" where
  "extract_token h =
     (if given (x_auth_token h) then x_auth_token h
      else map_option (replace_first ''Bearer '' []) (authorization h))"

text \<open>
  \<open>jwt.verify\<close> belongs to a library and is a parameter of the model: it throws
  (bad signature, malformed or expired token) or returns the decoded payload, whose
  \<open>userId\<close> may be missing.
\<close>

datatype jwt_result = JwtError | JwtDecoded "uuid option"

text \<open>What the middleware stores in \<open>req.user\<close>.\<close>

record auth_user =
  au_id :: uuid
  au_email :: "string option"
  au_name :: "string option"
  au_company_id :: "uuid option"
  au_role :: "string option"

definition auth_user_of :: "user \<Rightarrow> auth_user" where
  "auth_user_of u =
     \<lparr>au_id = u_id u, au_email = u_email u, au_name = u_name u,
      au_company_id = u_company_id u, au_role = u_role u\<rparr>"

text \<open>\<open>next\<close> is the downstream handler; it receives \<open>req.user\<close>.\<close>

definition auth_middleware ::
  "(string \<Rightarrow> jwt_result) \<Rightarrow> request_headers \<Rightarrow>
   (auth_user \<Rightarrow> db \<Rightarrow> (http_error + 'a) \<times> db) \<Rightarrow> db \<Rightarrow> (http_error + 'a) \<times> db" where
  "auth_middleware jwt_verify h next d =
     (case extract_token h of
        None \<Rightarrow> (Inl (HttpError 401 ''No token, authorization denied''), d)
      | Some token \<Rightarrow>
          if token = [] then (Inl (HttpError 401 ''No token, authorization denied''), d)
          else
            (case jwt_verify token of
               JwtError \<Rightarrow> (Inl (HttpError 401 ''Token is not valid''), d)
             | JwtDecoded userId \<Rightarrow>
                 (case filter (\<lambda>u. sql_eq (Some (u_id u)) userId) (users d) of
                    [] \<Rightarrow> (Inl (HttpError 401 ''User not found''), d)
                  | u # us \<Rightarrow> next (auth_user_of u) d)))"

section \<open>Registration and login (routes/auth.js)\<close>

record register_body =
  rb_name :: "string js"
  rb_email :: "string js"
  rb_password :: "string js"
  rb_companyName :: "string js"

record register_reply =
  rr_token :: string
  rr_id :: uuid
  rr_email :: "string option"
  rr_name :: "string option"

text \<open>
  \<open>POST /auth/register\<close>. \<open>bcrypt_hash\<close> stands for \<open>genSalt\<close> followed by \<open>hash\<close> and
  \<open>jwt_sign\<close> for \<open>jwt.sign\<close>; \<open>bcrypt\<close> throws when the password is not a string. The
  statements run one after the other outside any transaction, so a failure after
  the company insert leaves the company row behind.
\<close>

definition auth_register ::
  "(string \<Rightarrow> string) \<Rightarrow> (uuid \<Rightarrow> string) \<Rightarrow> uuid \<Rightarrow> uuid \<Rightarrow> timestamp \<Rightarrow>
   register_body \<Rightarrow> db \<Rightarrow> (http_error + register_reply) \<times> db" where
  "auth_register bcrypt_hash jwt_sign new_company_id new_user_id now body d =
     (if filter (\<lambda>u. sql_eq (u_email u) (to_sql (rb_email body))) (users d) \<noteq> []
      then (Inl (HttpError 400 ''User already exists''), d)
      else
        let c = \<lparr>co_id = new_company_id,
                 co_name = Some (or_else (rb_companyName body) ''My Company''),
                 co_plan = Some ''basic'', co_settings = Some ''{}'',
                 co_created_at = now, co_updated_at = now\<rparr>
        in if new_company_id \<in> set (map co_id (companies d)) \<or> \<not> companies_row_ok c
           then (Inl (HttpError 500 ''Server error during registration''), d)
           else
             let d1 = d\<lparr>companies := companies d @ [c]\<rparr>
             in (case rb_password body of
                   Val password \<Rightarrow>
                     let u = \<lparr>u_id = new_user_id, u_email = to_sql (rb_email body),
                              u_password_hash = Some (bcrypt_hash password),
                              u_name = to_sql (rb_name body),
                              u_company_id = Some new_company_id, u_role = Some ''user'',
                              u_is_active = Some True, u_last_login = None,
                              u_created_at = now, u_updated_at = now\<rparr>
                     in if new_user_id \<in> set (map u_id (users d1)) \<or> \<not> users_row_ok u \<or>
                           filter (\<lambda>v. sql_eq (u_email v) (u_email u)) (users d1) \<noteq> []
                        then (Inl (HttpError 500 ''Server error during registration''), d1)
                        else (Inr \<lparr>rr_token = jwt_sign new_user_id, rr_id = new_user_id,
                                   rr_email = u_email u, rr_name = u_name u\<rparr>,
                              d1\<lparr>users := users d1 @ [u]\<rparr>)
                 | Undefined \<Rightarrow> (Inl (HttpError 500 ''Server error during registration''), d1)
                 | Null \<Rightarrow> (Inl (HttpError 500 ''Server error during registration''), d1)))"

record login_body =
  lg_email :: "string js"
  lg_password :: "string js"

record login_reply =
  lr_token :: string
  lr_id :: uuid
  lr_email :: "string option"
  lr_name :: "string option"
  lr_company_id :: "uuid option"

text \<open>\<open>POST /auth/login\<close>. \<open>bcrypt_compare\<close> stands for \<open>bcrypt.compare\<close>, which throws
  unless both arguments are strings. Login writes nothing.\<close>

definition auth_login ::
  "(string \<Rightarrow> string \<Rightarrow> bool) \<Rightarrow> (uuid \<Rightarrow> string) \<Rightarrow> login_body \<Rightarrow> db \<Rightarrow>
   http_error + login_reply" where
  "auth_login bcrypt_compare jwt_sign body d =
     (case filter (\<lambda>u. sql_eq (u_email u) (to_sql (lg_email body))) (users d) of
        [] \<Rightarrow> Inl (HttpError 400 ''Invalid credentials'')
      | u # us \<Rightarrow>
          (case (lg_password body, u_password_hash u) of
             (Val password, Some h) \<Rightarrow>
               if \<not> bcrypt_compare password h
               then Inl (HttpError 400 ''Invalid credentials'')
               else Inr \<lparr>lr_token = jwt_sign (u_id u), lr_id = u_id u,
                         lr_email = u_email u, lr_name = u_name u,
                         lr_company_id = u_company_id u\<rparr>
           | _ \<Rightarrow> Inl (HttpError 500 ''Server error during login'')))"

text \<open>\<open>GET /auth/me\<close> answers with \<open>req.user\<close> as the middleware left it.\<close>

definition auth_me :: "auth_user \<Rightarrow> db \<Rightarrow> (http_error + auth_user) \<times> db" where
  "auth_me u d = (Inr u, d)"

section \<open>The protected routes, by request\<close>

datatype request =
    GetContacts contact_query
  | GetContact uuid
  | PostContact contact_body
  | PutContact uuid contact_body
  | DeleteContact uuid
  | GetLeads lead_query
  | GetLead uuid
  | PostLead lead_body
  | PutLead uuid lead_body
  | DeleteLead uuid
  | GetLeadsPipeline
  | GetTasks task_query
  | GetTask uuid
  | PostTask task_body
  | PutTask uuid task_body
  | DeleteTask uuid
  | GetTasksOverview

datatype reply =
    ContactList "contact_view list"
  | ContactRow contact
  | LeadList "lead_view list"
  | LeadRow lead
  | PipelineRows "pipeline_row list"
  | TaskList "task_view list"
  | TaskJoined "task \<times> string option"
  | TaskRow task
  | OverviewRows "overview_row list"
  | Message string

text \<open>What a handler takes from outside the request: the identifier \<open>uuidv4()\<close>
  returns and the store's clock and calendar.\<close>

record server_env =
  uuidv4 :: uuid
  clock :: timestamp
  current_date :: date

definition reply_with :: "('a \<Rightarrow> reply) \<Rightarrow> (http_error + 'a) \<times> db \<Rightarrow> (http_error + reply) \<times> db" where
  "reply_with f r = (map_sum id f (fst r), snd r)"

fun route :: "server_env \<Rightarrow> uuid option \<Rightarrow> request \<Rightarrow> db \<Rightarrow> (http_error + reply) \<times> db" where
  "route e company_id (GetContacts q) d =
     reply_with ContactList (contacts_get_all company_id q d, d)"
| "route e company_id (GetContact i) d =
     reply_with ContactRow (contacts_get_one company_id i d, d)"
| "route e company_id (PostContact body) d =
     reply_with ContactRow
       (contacts_post (uuidv4 e) (clock e) (current_date e) company_id body d)"
| "route e company_id (PutContact i body) d =
     reply_with ContactRow (contacts_put (clock e) company_id i body d)"
| "route e company_id (DeleteContact i) d =
     reply_with Message (contacts_delete (clock e) company_id i d)"
| "route e company_id (GetLeads q) d =
     reply_with LeadList (leads_get_all company_id q d, d)"
| "route e company_id (GetLead i) d =
     reply_with LeadRow (leads_get_one company_id i d, d)"
| "route e company_id (PostLead body) d =
     reply_with LeadRow (leads_post (uuidv4 e) (clock e) company_id body d)"
| "route e company_id (PutLead i body) d =
     reply_with LeadRow (leads_put (clock e) company_id i body d)"
| "route e company_id (DeleteLead i) d =
     reply_with Message (leads_delete company_id i d)"
| "route e company_id GetLeadsPipeline d =
     reply_with PipelineRows (leads_stats_pipeline company_id d, d)"
| "route e company_id (GetTasks q) d =
     reply_with TaskList (tasks_get_all company_id q d, d)"
| "route e company_id (GetTask i) d =
     reply_with TaskJoined (tasks_get_one company_id i d, d)"
| "route e company_id (PostTask body) d =
     reply_with TaskRow (tasks_post (uuidv4 e) (clock e) company_id body d)"
| "route e company_id (PutTask i body) d =
     reply_with TaskRow (tasks_put (clock e) company_id i body d)"
| "route e company_id (DeleteTask i) d =
     reply_with Message (tasks_delete company_id i d)"
| "route e company_id GetTasksOverview d =
     reply_with OverviewRows (tasks_stats_overview company_id d, d)"

text \<open>Every one of these routes is mounted behind the middleware and reads the
  tenant from \<open>req.user.company_id\<close>.\<close>

definition serve ::
  "(string \<Rightarrow> jwt_result) \<Rightarrow> server_env \<Rightarrow> request_headers \<Rightarrow> request \<Rightarrow> db \<Rightarrow>
   (http_error + reply) \<times> db" where
  "serve jwt_verify e h req d =
     auth_middleware jwt_verify h (\<lambda>u. route e (au_company_id u) req) d"

section \<open>Notions of the specification\<close>










text \<open>The fields \<open>PUT /contacts/:id\<close> leaves alone.\<close>

definition contact_frame :: "contact \<Rightarrow> contact \<Rightarrow> bool" where
  "contact_frame r r' =
     (c_id r' = c_id r \<and> c_company_id r' = c_company_id r \<and>
      c_created_at r' = c_created_at r \<and> c_last_contact r' = c_last_contact r \<and>
      c_tags r' = c_tags r)"



section \<open>Sample data\<close>

text \<open>
  Two tenants. Company 1 holds the rows of the migration's demo data; company 2 is a
  second tenant with one contact, one lead and one task of its own.
\<close>

definition demo_contacts :: "contact list" where
  "demo_contacts =
     [\<lparr>c_id = 11, c_company_id = Some 1, c_name = Some ''John Smith'',
       c_email = Some ''john@acmecorp.com'', c_phone = Some ''+1-555-123-4567'',
       c_position = Some ''CEO'', c_company_name = Some ''Acme Corp'',
       c_status = Some ''active'', c_value = Some 50000,
       c_notes = Some ''Key decision maker'', c_last_contact = Some 19700,
       c_tags = Some [], c_created_at = 100, c_updated_at = 100\<rparr>,
      \<lparr>c_id = 12, c_company_id = Some 1, c_name = Some ''Sarah Johnson'',
       c_email = Some ''sarah@techstart.com'', c_phone = Some ''+1-555-987-6543'',
       c_position = Some ''CTO'', c_company_name = Some ''TechStart Inc'',
       c_status = Some ''prospect'', c_value = Some 25000,
       c_notes = Some ''Technical evaluation'', c_last_contact = Some 19700,
       c_tags = Some [], c_created_at = 101, c_updated_at = 101\<rparr>,
      \<lparr>c_id = 13, c_company_id = Some 2, c_name = Some ''Ana Ruiz'',
       c_email = None, c_phone = None, c_position = None, c_company_name = None,
       c_status = Some ''prospect'', c_value = Some 0, c_notes = None,
       c_last_contact = Some 19701, c_tags = Some [], c_created_at = 102,
       c_updated_at = 102\<rparr>]"

definition demo_leads :: "lead list" where
  "demo_leads =
     [\<lparr>l_id = 21, l_company_id = Some 1, l_title = Some ''Enterprise Software Deal'',
       l_company_name = Some ''Global Industries'', l_contact_name = Some ''Mike Wilson'',
       l_value = Some 75000, l_stage = Some ''negotiation'', l_probability = Some 70,
       l_expected_close = Some 19768, l_source = Some ''Website'',
       l_notes = Some ''Large enterprise deal'', l_tags = Some [], l_created_at = 100,
       l_updated_at = 100\<rparr>,
      \<lparr>l_id = 22, l_company_id = Some 1, l_title = Some ''Small Business Package'',
       l_company_name = Some ''Local Bakery'', l_contact_name = Some ''Lisa Chen'',
       l_value = Some 5000, l_stage = Some ''proposal'', l_probability = Some 50,
       l_expected_close = Some 19752, l_source = Some ''Referral'',
       l_notes = Some ''Budget conscious client'', l_tags = Some [], l_created_at = 101,
       l_updated_at = 101\<rparr>,
      \<lparr>l_id = 23, l_company_id = Some 2, l_title = Some ''Pilot'',
       l_company_name = None, l_contact_name = None, l_value = Some 900,
       l_stage = Some ''lead'', l_probability = Some 10, l_expected_close = None,
       l_source = None, l_notes = None, l_tags = Some [], l_created_at = 102,
       l_updated_at = 102\<rparr>]"

definition demo_tasks :: "task list" where
  "demo_tasks =
     [\<lparr>t_id = 31, t_company_id = Some 1, t_contact_id = Some 11,
       t_title = Some ''Follow up with John Smith'',
       t_description = Some ''Send proposal for enterprise package'',
       t_due_date = Some 19742, t_priority = Some ''high'', t_status = Some ''pending'',
       t_created_at = 100, t_updated_at = 100\<rparr>,
      \<lparr>t_id = 32, t_company_id = Some 1, t_contact_id = Some 12,
       t_title = Some ''Technical demo for TechStart'',
       t_description = Some ''Schedule product demonstration'',
       t_due_date = Some 19740, t_priority = Some ''medium'', t_status = Some ''pending'',
       t_created_at = 101, t_updated_at = 101\<rparr>,
      \<lparr>t_id = 33, t_company_id = Some 2, t_contact_id = Some 13,
       t_title = Some ''Call Ana'', t_description = None, t_due_date = None,
       t_priority = Some ''low'', t_status = Some ''pending'', t_created_at = 102,
       t_updated_at = 102\<rparr>]"

definition demo_db :: db where
  "demo_db =
     \<lparr>companies =
        [\<lparr>co_id = 1, co_name = Some ''Demo Company'', co_plan = Some ''basic'',
          co_settings = Some ''{}'', co_created_at = 100, co_updated_at = 100\<rparr>,
         \<lparr>co_id = 2, co_name = Some ''Other Company'', co_plan = Some ''basic'',
          co_settings = Some ''{}'', co_created_at = 100, co_updated_at = 100\<rparr>],
      users =
        [\<lparr>u_id = 5, u_email = Some ''demo@example.com'',
          u_password_hash = Some ''hash:password'', u_name = Some ''Demo User'',
          u_company_id = Some 1, u_role = Some ''admin'', u_is_active = Some True,
          u_last_login = None, u_created_at = 100, u_updated_at = 100\<rparr>,
         \<lparr>u_id = 6, u_email = Some ''ana@example.com'',
          u_password_hash = Some ''hash:secret'', u_name = Some ''Ana'',
          u_company_id = Some 2, u_role = Some ''user'', u_is_active = Some True,
          u_last_login = None, u_created_at = 100, u_updated_at = 100\<rparr>],
      contacts = demo_contacts, leads = demo_leads, tasks = demo_tasks\<rparr>"

text \<open>A full contact payload, and one that leaves everything but the name out.\<close>

definition demo_contact_body :: contact_body where
  "demo_contact_body =
     \<lparr>cb_name = Val ''John A. Smith'', cb_email = Val ''john@acme.example'',
      cb_phone = Undefined, cb_position = Val ''Chair'', cb_company_name = Null,
      cb_value = Val 60000, cb_notes = Undefined, cb_status = Val ''active''\<rparr>"

text \<open>Stand-ins for the two libraries: a hash that prefixes, a token that writes
  the user id in unary.\<close>

definition demo_hash :: "string \<Rightarrow> string" where
  "demo_hash p = ''hash:'' @ p"

definition demo_compare :: "string \<Rightarrow> string \<Rightarrow> bool" where
  "demo_compare p h = (h = ''hash:'' @ p)"

definition demo_sign :: "uuid \<Rightarrow> string" where
  "demo_sign i = CHR ''t'' # replicate i (CHR ''1'')"

definition demo_verify :: "string \<Rightarrow> jwt_result" where
  "demo_verify t =
     (case t of [] \<Rightarrow> JwtError
      | c # r \<Rightarrow> if c = CHR ''t'' \<and> list_all (\<lambda>x. x = CHR ''1'') r
                 then JwtDecoded (Some (length r)) else JwtError)"

definition demo_register_body :: register_body where
  "demo_register_body =
     \<lparr>rb_name = Val ''Demo Again'', rb_email = Val ''demo@example.com'',
      rb_password = Val ''password'', rb_companyName = Undefined\<rparr>"




text \<open>Queries without filters, and three tasks of company 1 with priorities low,
  high and medium that are due the same day.\<close>

definition all_contacts :: contact_query where
  "all_contacts = \<lparr>cq_search = None, cq_status = None, cq_limit = LimitMissing\<rparr>"

definition all_leads :: lead_query where
  "all_leads = \<lparr>lq_search = None, lq_stage = None, lq_limit = LimitMissing\<rparr>"

definition all_tasks :: task_query where
  "all_tasks =
     \<lparr>tq_search = None, tq_status = None, tq_priority = None, tq_limit = LimitMissing\<rparr>"

definition three_tasks :: "task list" where
  "three_tasks =
     [\<lparr>t_id = 34, t_company_id = Some 1, t_contact_id = None, t_title = Some ''Archive'',
       t_description = None, t_due_date = Some 19750, t_priority = Some ''low'',
       t_status = Some ''pending'', t_created_at = 110, t_updated_at = 110\<rparr>,
      \<lparr>t_id = 35, t_company_id = Some 1, t_contact_id = None, t_title = Some ''Renewal'',
       t_description = None, t_due_date = Some 19750, t_priority = Some ''high'',
       t_status = Some ''pending'', t_created_at = 111, t_updated_at = 111\<rparr>,
      \<lparr>t_id = 36, t_company_id = Some 1, t_contact_id = None, t_title = Some ''Newsletter'',
       t_description = None, t_due_date = Some 19750, t_priority = Some ''medium'',
       t_status = Some ''pending'', t_created_at = 112, t_updated_at = 112\<rparr>]"

text \<open>A downstream handler for the middleware: \<open>GET /auth/me\<close>.\<close>

definition whoami :: "auth_user \<Rightarrow> db \<Rightarrow> (http_error + auth_user) \<times> db" where
  "whoami = auth_me"

section \<open>Properties\<close>

subsection \<open>Lists and SQL operators\<close>

lemma sql_eq_Some_left: "sql_eq (Some a) b = (b = Some a)"
  by (cases b) auto

lemma filter_hd_mem: "filter P xs = y # ys \<Longrightarrow> y \<in> set xs \<and> P y"
  by (metis filter_eq_Cons_iff in_set_conv_decomp)

lemma replace_first_bearer: "replace_first ''Bearer '' [] (''Bearer '' @ t) = t"
  by simp


subsection \<open>Contact update: what it leaves alone\<close>

lemma contacts_set_frame: "contact_frame r (contacts_set now body r)"
  by (simp add: contact_frame_def contacts_set_def)

lemma contact_frame_refl: "contact_frame r r"
  by (simp add: contact_frame_def)

lemma contacts_put_cases:
  assumes "contacts_put now company_id i body d = (res, d')"
  shows "(d' = d \<and> (\<exists>e. res = Inl e)) \<or>
         (\<exists>r rs. filter (contacts_match i company_id) (contacts d) = r # rs \<and>
            res = Inr (contacts_set now body r) \<and>
            list_all contacts_row_ok
              (map (contacts_set now body) (filter (contacts_match i company_id) (contacts d))) \<and>
            d' = d\<lparr>contacts := map (\<lambda>r. if contacts_match i company_id r
                                         then contacts_set now body r else r)
                                  (contacts d)\<rparr>)"
  using assms unfolding contacts_put_def Let_def
  by (auto split: if_splits list.splits)

text \<open>
  C10. A successful contact update keeps, in every stored contact and in the row it
  returns, the id, company_id, created_at, last_contact and tags; it changes no other
  table. What it may change is name, email, phone, position, company_name, value,
  notes, status and updated_at of the rows matching the id and the caller's company.
\<close>

theorem contacts_put_frame:
  assumes "contacts_put now company_id i body d = (Inr r', d')"
  shows "list_all2 contact_frame (contacts d) (contacts d') \<and>
         (\<exists>r \<in> set (contacts d). contacts_match i company_id r \<and> contact_frame r r') \<and>
         r' \<in> set (contacts d') \<and>
         companies d' = companies d \<and> users d' = users d \<and>
         leads d' = leads d \<and> tasks d' = tasks d"
proof -
  from contacts_put_cases[OF assms] obtain r rs where
    f: "filter (contacts_match i company_id) (contacts d) = r # rs" and
    r': "r' = contacts_set now body r" and
    d': "d' = d\<lparr>contacts := map (\<lambda>r. if contacts_match i company_id r
                                       then contacts_set now body r else r)
                                (contacts d)\<rparr>"
    by auto
  have "r \<in> set (filter (contacts_match i company_id) (contacts d))"
    by (simp add: f)
  then have rin: "r \<in> set (contacts d)" "contacts_match i company_id r"
    by simp_all
  have "list_all2 contact_frame (contacts d) (contacts d')"
    unfolding d' by (simp add: list_all2_map2 list_all2_same contacts_set_frame contact_frame_refl)
  moreover have "r' \<in> set (contacts d')"
    unfolding d' r' using rin by force
  ultimately show ?thesis
    using rin r' d' contacts_set_frame by auto
qed

theorem contacts_put_frame_witness:
  "contacts_put 200 (Some 1) 11 demo_contact_body demo_db =
     (Inr (hd (contacts (snd (contacts_put 200 (Some 1) 11 demo_contact_body demo_db)))),
      snd (contacts_put 200 (Some 1) 11 demo_contact_body demo_db)) \<and>
   list_all2 contact_frame (contacts demo_db)
     (contacts (snd (contacts_put 200 (Some 1) 11 demo_contact_body demo_db))) \<and>
   c_name (hd (contacts (snd (contacts_put 200 (Some 1) 11 demo_contact_body demo_db))))
     = Some ''John A. Smith'' \<and>
   c_tags (hd (contacts (snd (contacts_put 200 (Some 1) 11 demo_contact_body demo_db))))
     = Some []"
proof -
  have run: "contacts_put 200 (Some 1) 11 demo_contact_body demo_db =
     (Inr (hd (contacts (snd (contacts_put 200 (Some 1) 11 demo_contact_body demo_db)))),
      snd (contacts_put 200 (Some 1) 11 demo_contact_body demo_db))"
    by (simp add: contacts_put_def demo_db_def demo_contacts_def demo_contact_body_def
        contacts_match_def contacts_set_def contacts_row_ok_def not_null_def varchar_def
        int4_def)
  have vals: "c_name (hd (contacts (snd (contacts_put 200 (Some 1) 11 demo_contact_body demo_db))))
     = Some ''John A. Smith'' \<and>
   c_tags (hd (contacts (snd (contacts_put 200 (Some 1) 11 demo_contact_body demo_db))))
     = Some []"
    by (simp add: contacts_put_def demo_db_def demo_contacts_def demo_contact_body_def
        contacts_match_def contacts_set_def contacts_row_ok_def not_null_def varchar_def
        int4_def)
  from contacts_put_frame[OF run] run vals show ?thesis by blast
qed

subsection \<open>Registration with a taken email\<close>

text \<open>
  C9. When the email of the payload is already stored, register answers 400
  ``User already exists'' and the store is the one it started from: no company row
  and no user row is created. Conversely, a 400 from register is this answer, and the
  store is unchanged.
\<close>

theorem register_conflict_unchanged:
  "((\<exists>u \<in> set (users d). sql_eq (u_email u) (to_sql (rb_email body))) \<longrightarrow>
      auth_register bcrypt_hash jwt_sign new_company_id new_user_id now body d =
        (Inl (HttpError 400 ''User already exists''), d)) \<and>
   (\<forall>e. fst (auth_register bcrypt_hash jwt_sign new_company_id new_user_id now body d) = Inl e \<and>
        is_Conflict e \<longrightarrow>
        snd (auth_register bcrypt_hash jwt_sign new_company_id new_user_id now body d) = d \<and>
        e = HttpError 400 ''User already exists'' \<and>
        (\<exists>u \<in> set (users d). sql_eq (u_email u) (to_sql (rb_email body))))"
proof (cases "filter (\<lambda>u. sql_eq (u_email u) (to_sql (rb_email body))) (users d) = []")
  case True
  then have no: "\<not> (\<exists>u \<in> set (users d). sql_eq (u_email u) (to_sql (rb_email body)))"
    by (simp add: filter_empty_conv)
  have "\<And>e. fst (auth_register bcrypt_hash jwt_sign new_company_id new_user_id now body d) = Inl e
      \<Longrightarrow> \<not> is_Conflict e"
    using True unfolding auth_register_def Let_def is_Conflict_def
    by (auto split: if_splits js.splits)
  with no show ?thesis by blast
next
  case False
  then have ex: "\<exists>u \<in> set (users d). sql_eq (u_email u) (to_sql (rb_email body))"
    by (simp add: filter_empty_conv)
  have "auth_register bcrypt_hash jwt_sign new_company_id new_user_id now body d =
        (Inl (HttpError 400 ''User already exists''), d)"
    using False by (simp add: auth_register_def)
  with ex show ?thesis by simp
qed

theorem register_conflict_unchanged_witness:
  "auth_register demo_hash demo_sign 3 7 200 demo_register_body demo_db =
     (Inl (HttpError 400 ''User already exists''), demo_db)"
proof -
  have h: "\<exists>u \<in> set (users demo_db). sql_eq (u_email u) (to_sql (rb_email demo_register_body))"
    by (simp add: demo_db_def demo_register_body_def)
  from register_conflict_unchanged[of demo_db demo_register_body demo_hash demo_sign 3 7 200] h
  show ?thesis by blast
qed

subsection \<open>Login failures\<close>

text \<open>
  C5. A login with an email that no stored user has and a login with a stored email
  whose password does not match the stored hash get the same answer, status 400 with
  the error ``Invalid credentials''.
\<close>

theorem login_failures_alike:
  assumes unknown: "\<forall>u \<in> set (users d1). \<not> sql_eq (u_email u) (to_sql (lg_email b1))"
    and known: "\<exists>u \<in> set (users d2). sql_eq (u_email u) (to_sql (lg_email b2))"
    and pw: "lg_password b2 = Val password"
    and wrong: "\<forall>u \<in> set (users d2). sql_eq (u_email u) (to_sql (lg_email b2)) \<longrightarrow>
                 (\<exists>h. u_password_hash u = Some h \<and> \<not> bcrypt_compare password h)"
  shows "auth_login bcrypt_compare jwt_sign b1 d1 = auth_login bcrypt_compare jwt_sign b2 d2 \<and>
         auth_login bcrypt_compare jwt_sign b1 d1 = Inl (HttpError 400 ''Invalid credentials'')"
proof -
  have 1: "auth_login bcrypt_compare jwt_sign b1 d1 = Inl (HttpError 400 ''Invalid credentials'')"
    using unknown by (simp add: auth_login_def filter_empty_conv)
  obtain u us where f: "filter (\<lambda>u. sql_eq (u_email u) (to_sql (lg_email b2))) (users d2) = u # us"
    using known by (cases "filter (\<lambda>u. sql_eq (u_email u) (to_sql (lg_email b2))) (users d2)")
      (auto simp: filter_empty_conv)
  then have "u \<in> set (filter (\<lambda>u. sql_eq (u_email u) (to_sql (lg_email b2))) (users d2))"
    by simp
  then have "u \<in> set (users d2)" "sql_eq (u_email u) (to_sql (lg_email b2))" by simp_all
  with wrong obtain h where "u_password_hash u = Some h" "\<not> bcrypt_compare password h" by blast
  then have 2: "auth_login bcrypt_compare jwt_sign b2 d2 = Inl (HttpError 400 ''Invalid credentials'')"
    using f pw by (simp add: auth_login_def)
  from 1 2 show ?thesis by simp
qed

theorem login_failures_alike_witness:
  "auth_login demo_compare demo_sign
     \<lparr>lg_email = Val ''nobody@example.com'', lg_password = Val ''password''\<rparr> demo_db =
   auth_login demo_compare demo_sign
     \<lparr>lg_email = Val ''demo@example.com'', lg_password = Val ''wrong''\<rparr> demo_db \<and>
   auth_login demo_compare demo_sign
     \<lparr>lg_email = Val ''nobody@example.com'', lg_password = Val ''password''\<rparr> demo_db =
   Inl (HttpError 400 ''Invalid credentials'')"
proof -
  let ?b1 = "\<lparr>lg_email = Val ''nobody@example.com'', lg_password = Val ''password''\<rparr>"
  let ?b2 = "\<lparr>lg_email = Val ''demo@example.com'', lg_password = Val ''wrong''\<rparr>"
  have h1: "\<forall>u \<in> set (users demo_db). \<not> sql_eq (u_email u) (to_sql (lg_email ?b1))"
    by (simp add: demo_db_def)
  have h2: "\<exists>u \<in> set (users demo_db). sql_eq (u_email u) (to_sql (lg_email ?b2))"
    by (simp add: demo_db_def)
  have h3: "lg_password ?b2 = Val ''wrong''"
    by simp
  have h4: "\<forall>u \<in> set (users demo_db). sql_eq (u_email u) (to_sql (lg_email ?b2)) \<longrightarrow>
              (\<exists>h. u_password_hash u = Some h \<and> \<not> demo_compare ''wrong'' h)"
    by (simp add: demo_db_def demo_compare_def)
  from login_failures_alike[where bcrypt_compare = demo_compare and password = "''wrong''",
      OF h1 h2 h3 h4]
  show ?thesis .
qed

subsection \<open>The auth middleware\<close>

text \<open>
  C8. The middleware reads the token from \<open>x-auth-token\<close> when that header holds a
  non-empty value and otherwise from \<open>Authorization\<close> with the first \<open>Bearer \<close>
  removed. It answers 401 with the store untouched and the same answer whatever the
  downstream handler is (so without running it) when no token is present, when
  \<open>jwt.verify\<close> throws, or when no user row has the decoded id; in every other case
  it hands \<open>{id, email, name, company_id, role}\<close> of that user row to the handler and
  answers what the handler answers.
\<close>

theorem auth_middleware_gate:
  "(given (x_auth_token h) \<longrightarrow> extract_token h = x_auth_token h) \<and>
   (\<not> given (x_auth_token h) \<longrightarrow>
      extract_token h = map_option (replace_first ''Bearer '' []) (authorization h)) \<and>
   replace_first ''Bearer '' [] (''Bearer '' @ t) = t \<and>
   ((\<not> given (extract_token h) \<or>
     (\<exists>tok. extract_token h = Some tok \<and> jwt_verify tok = JwtError) \<or>
     (\<exists>tok userId. extract_token h = Some tok \<and> jwt_verify tok = JwtDecoded userId \<and>
        (\<forall>u \<in> set (users d). \<not> sql_eq (Some (u_id u)) userId))) \<longrightarrow>
      (\<exists>e. is_Unauthorized e \<and>
         (\<forall>next. auth_middleware jwt_verify h next d = (Inl e, d)))) \<and>
   (\<not> (\<not> given (extract_token h) \<or>
     (\<exists>tok. extract_token h = Some tok \<and> jwt_verify tok = JwtError) \<or>
     (\<exists>tok userId. extract_token h = Some tok \<and> jwt_verify tok = JwtDecoded userId \<and>
        (\<forall>u \<in> set (users d). \<not> sql_eq (Some (u_id u)) userId))) \<longrightarrow>
      (\<exists>u \<in> set (users d). \<exists>tok. extract_token h = Some tok \<and>
         jwt_verify tok = JwtDecoded (Some (u_id u)) \<and>
         (\<forall>next. auth_middleware jwt_verify h next d =
            next \<lparr>au_id = u_id u, au_email = u_email u, au_name = u_name u,
                  au_company_id = u_company_id u, au_role = u_role u\<rparr> d)))"
  (is "?A \<and> ?B \<and> ?C \<and> (?R \<longrightarrow> ?Fail) \<and> (\<not> ?R \<longrightarrow> ?Pass)")
proof -
  have A: ?A and B: ?B by (simp_all add: extract_token_def)
  have C: ?C by (rule replace_first_bearer)
  have fail: ?Fail if ?R
  proof -
    from that consider
        (none) "\<not> given (extract_token h)"
      | (bad) tok where "extract_token h = Some tok" "tok \<noteq> []" "jwt_verify tok = JwtError"
      | (gone) tok userId where "extract_token h = Some tok" "tok \<noteq> []"
          "jwt_verify tok = JwtDecoded userId"
          "\<forall>u \<in> set (users d). \<not> sql_eq (Some (u_id u)) userId"
      by (auto simp: given_def split: option.splits)
    then show ?thesis
    proof cases
      case none
      then have "\<forall>next. auth_middleware jwt_verify h next d =
          (Inl (HttpError 401 ''No token, authorization denied''), d)"
        by (auto simp: auth_middleware_def given_def split: option.splits)
      then show ?thesis by (intro exI[of _ "HttpError 401 ''No token, authorization denied''"])
          (simp add: is_Unauthorized_def)
    next
      case bad
      then have "\<forall>next. auth_middleware jwt_verify h next d =
          (Inl (HttpError 401 ''Token is not valid''), d)"
        by (simp add: auth_middleware_def)
      then show ?thesis by (intro exI[of _ "HttpError 401 ''Token is not valid''"])
          (simp add: is_Unauthorized_def)
    next
      case gone
      then have "filter (\<lambda>u. sql_eq (Some (u_id u)) userId) (users d) = []"
        by (simp add: filter_empty_conv)
      with gone have "\<forall>next. auth_middleware jwt_verify h next d =
          (Inl (HttpError 401 ''User not found''), d)"
        by (simp add: auth_middleware_def)
      then show ?thesis by (intro exI[of _ "HttpError 401 ''User not found''"])
          (simp add: is_Unauthorized_def)
    qed
  qed
  have pass: ?Pass if nr: "\<not> ?R"
  proof -
    from nr obtain tok where tok: "extract_token h = Some tok" "tok \<noteq> []"
      by (auto simp: given_def split: option.splits)
    with nr obtain userId where dec: "jwt_verify tok = JwtDecoded userId"
      by (cases "jwt_verify tok") auto
    with nr tok obtain u us where
      f: "filter (\<lambda>u. sql_eq (Some (u_id u)) userId) (users d) = u # us"
      by (cases "filter (\<lambda>u. sql_eq (Some (u_id u)) userId) (users d)")
        (auto simp: filter_empty_conv)
    from filter_hd_mem[OF f] have u: "u \<in> set (users d)" "userId = Some (u_id u)"
      by (simp_all add: sql_eq_Some_left)
    have "\<forall>next. auth_middleware jwt_verify h next d = next (auth_user_of u) d"
      using tok dec f by (simp add: auth_middleware_def)
    then show ?thesis
      using u tok dec by (auto simp: auth_user_of_def)
  qed
  from A B C fail pass show ?thesis by blast
qed

theorem auth_middleware_gate_witness:
  "extract_token \<lparr>x_auth_token = Some ''t11111'', authorization = Some ''Bearer t111111''\<rparr>
     = Some ''t11111'' \<and>
   extract_token \<lparr>x_auth_token = None, authorization = Some ''Bearer t111111''\<rparr>
     = Some ''t111111'' \<and>
   (\<exists>e. is_Unauthorized e \<and>
      auth_middleware demo_verify \<lparr>x_auth_token = None, authorization = Some ''Bearer t1''\<rparr>
        whoami demo_db = (Inl e, demo_db)) \<and>
   auth_middleware demo_verify
     \<lparr>x_auth_token = Some ''t11111'', authorization = Some ''Bearer t111111''\<rparr> whoami demo_db =
     (Inr \<lparr>au_id = 5, au_email = Some ''demo@example.com'', au_name = Some ''Demo User'',
           au_company_id = Some 1, au_role = Some ''admin''\<rparr>, demo_db)"
proof -
  let ?h1 = "\<lparr>x_auth_token = Some ''t11111'', authorization = Some ''Bearer t111111''\<rparr>"
  let ?h2 = "\<lparr>x_auth_token = None, authorization = Some ''Bearer t111111''\<rparr>"
  let ?h3 = "\<lparr>x_auth_token = None, authorization = Some ''Bearer t1''\<rparr>"
  note G1 = auth_middleware_gate[where ?'a = auth_user and h = ?h1 and jwt_verify = demo_verify and d = demo_db]
  note G2 = auth_middleware_gate[where h = ?h2 and t = "''t111111''"]
  note G3 = auth_middleware_gate[where ?'a = auth_user and h = ?h3 and jwt_verify = demo_verify and d = demo_db]
  have g1: "given (x_auth_token ?h1)" and g2: "\<not> given (x_auth_token ?h2)"
    by (simp_all add: given_def)
  have t1: "extract_token ?h1 = Some ''t11111''"
    using G1[THEN conjunct1, THEN mp, OF g1] by simp
  have t2: "extract_token ?h2 = Some ''t111111''"
    using G2[THEN conjunct2, THEN conjunct1, THEN mp, OF g2]
      G2[THEN conjunct2, THEN conjunct2, THEN conjunct1]
    by simp
  have t3: "extract_token ?h3 = Some ''t1''"
    by (simp add: extract_token_def given_def)
  have v3: "demo_verify ''t1'' = JwtDecoded (Some 1)"
    by (simp add: demo_verify_def)
  have n3: "\<forall>u \<in> set (users demo_db). \<not> sql_eq (Some (u_id u)) (Some 1)"
    by (simp add: demo_db_def)
  have gone: "\<not> given (extract_token ?h3) \<or>
     (\<exists>tok. extract_token ?h3 = Some tok \<and> demo_verify tok = JwtError) \<or>
     (\<exists>tok userId. extract_token ?h3 = Some tok \<and> demo_verify tok = JwtDecoded userId \<and>
      (\<forall>u \<in> set (users demo_db). \<not> sql_eq (Some (u_id u)) userId))"
    using t3 v3 n3 by blast
  from G3[THEN conjunct2, THEN conjunct2, THEN conjunct2, THEN conjunct1, THEN mp, OF gone]
  obtain e where e: "is_Unauthorized e"
    "\<forall>next. auth_middleware demo_verify ?h3 next demo_db =
       (Inl e :: http_error + auth_user, demo_db)"
    by (elim exE conjE)
  from e(2) have "auth_middleware demo_verify ?h3 whoami demo_db = (Inl e, demo_db)"
    by (rule spec)
  with e(1) have r3: "\<exists>e. is_Unauthorized e \<and>
      auth_middleware demo_verify ?h3 whoami demo_db = (Inl e, demo_db)"
    by blast
  have v1: "demo_verify ''t11111'' = JwtDecoded (Some 5)"
    by (simp add: demo_verify_def)
  have u1: "\<exists>u \<in> set (users demo_db). sql_eq (Some (u_id u)) (Some 5)"
    by (simp add: demo_db_def)
  have ok: "\<not> (\<not> given (extract_token ?h1) \<or>
     (\<exists>tok. extract_token ?h1 = Some tok \<and> demo_verify tok = JwtError) \<or>
     (\<exists>tok userId. extract_token ?h1 = Some tok \<and> demo_verify tok = JwtDecoded userId \<and>
        (\<forall>u \<in> set (users demo_db). \<not> sql_eq (Some (u_id u)) userId)))"
    unfolding t1 using v1 u1 by (auto simp: given_def)
  from G1[THEN conjunct2, THEN conjunct2, THEN conjunct2, THEN conjunct2, THEN mp, OF ok]
  obtain u tok where
    u: "u \<in> set (users demo_db)" "extract_token ?h1 = Some tok"
      "demo_verify tok = JwtDecoded (Some (u_id u))"
      "\<forall>next :: auth_user \<Rightarrow> db \<Rightarrow> (http_error + auth_user) \<times> db.
         auth_middleware demo_verify ?h1 next demo_db =
         next \<lparr>au_id = u_id u, au_email = u_email u, au_name = u_name u,
                 au_company_id = u_company_id u, au_role = u_role u\<rparr> demo_db"
    by (elim bexE exE conjE)
  from u(2) t1 have "tok = ''t11111''" by simp
  with u(3) v1 have "u_id u = 5" by simp
  with u(1) have "u = hd (users demo_db)"
    by (auto simp: demo_db_def)
  moreover from u(4) have "auth_middleware demo_verify ?h1 whoami demo_db =
         whoami \<lparr>au_id = u_id u, au_email = u_email u, au_name = u_name u,
                 au_company_id = u_company_id u, au_role = u_role u\<rparr> demo_db"
    by (rule spec)
  ultimately have r1: "auth_middleware demo_verify ?h1 whoami demo_db =
     (Inr \<lparr>au_id = 5, au_email = Some ''demo@example.com'', au_name = Some ''Demo User'',
           au_company_id = Some 1, au_role = Some ''admin''\<rparr>, demo_db)"
    by (simp add: whoami_def auth_me_def demo_db_def)
  from t1 t2 r3 r1 show ?thesis by (intro conjI)
qed

subsection \<open>Lead probability at write time\<close>









subsection \<open>ORDER BY\<close>

lemma set_insort_by: "set (insort_by le x xs) = insert x (set xs)"
  by (induction xs) auto


lemma length_insort_by: "length (insort_by le x xs) = Suc (length xs)"
  by (induction xs) auto

lemma length_order_by: "length (order_by le xs) = length xs"
  by (induction xs) (simp_all add: order_by_def length_insort_by)

lemma sorted_insort_by:
  assumes total: "\<And>a b. le a b \<or> le b a"
    and trans: "\<And>a b c. le a b \<Longrightarrow> le b c \<Longrightarrow> le a c"
    and "sorted_wrt le xs"
  shows "sorted_wrt le (insort_by le x xs)"
  using assms(3)
proof (induction xs)
  case Nil
  then show ?case by simp
next
  case (Cons y ys)
  from Cons.prems have tail: "\<forall>z \<in> set ys. le y z" and ys: "sorted_wrt le ys"
    by simp_all
  show ?case
  proof (cases "le x y")
    case True
    from tail have "\<forall>z \<in> set ys. le x z"
      using trans[OF True] by blast
    with True tail ys show ?thesis by simp
  next
    case False
    with total have "le y x" by blast
    with False tail Cons.IH[OF ys] show ?thesis
      by (simp add: set_insort_by)
  qed
qed

lemma sorted_order_by:
  assumes total: "\<And>a b. le a b \<or> le b a"
    and trans: "\<And>a b c. le a b \<Longrightarrow> le b c \<Longrightarrow> le a c"
  shows "sorted_wrt le (order_by le xs)"
proof (induction xs)
  case Nil
  then show ?case by (simp add: order_by_def)
next
  case (Cons x xs)
  have "sorted_wrt le (insort_by le x (order_by le xs))"
    by (rule sorted_insort_by) (rule total, erule trans, assumption, rule Cons.IH)
  then show ?case by (simp add: order_by_def)
qed

lemma nulls_last_less_linear: "nulls_last_less a b \<or> a = b \<or> nulls_last_less b a"
  by (auto simp: nulls_last_less_def split: option.splits)

lemma nulls_last_less_trans:
  "nulls_last_less a b \<Longrightarrow> nulls_last_less b c \<Longrightarrow> nulls_last_less a c"
  by (auto simp: nulls_last_less_def split: option.splits)

lemma nulls_last_less_irrefl: "\<not> nulls_last_less a a"
  by (auto simp: nulls_last_less_def split: option.splits)

lemma tv_order_total: "tv_order a b \<or> tv_order b a"
  using nulls_last_less_linear[of "priority_rank (tv_priority a)" "priority_rank (tv_priority b)"]
    nulls_last_less_linear[of "tv_due_date a" "tv_due_date b"]
  by (auto simp: tv_order_def)

lemma tv_order_trans:
  assumes "tv_order a b" "tv_order b c"
  shows "tv_order a c"
proof -
  let ?p = "\<lambda>v. priority_rank (tv_priority v)"
  from assms consider
      (p) "nulls_last_less (?p a) (?p c)"
    | (d) "?p a = ?p c" "nulls_last_less (tv_due_date a) (tv_due_date c)"
    | (c) "?p a = ?p c" "tv_due_date a = tv_due_date c" "tv_created_at c \<le> tv_created_at a"
    unfolding tv_order_def
    by (elim disjE conjE) (auto dest: nulls_last_less_trans)
  then show ?thesis
    by cases (simp_all add: tv_order_def)
qed

lemma cv_newest_first_total: "cv_newest_first a b \<or> cv_newest_first b a"
  by (auto simp: cv_newest_first_def)

lemma cv_newest_first_trans: "cv_newest_first a b \<Longrightarrow> cv_newest_first b c \<Longrightarrow> cv_newest_first a c"
  by (auto simp: cv_newest_first_def)

lemma lv_newest_first_total: "lv_newest_first a b \<or> lv_newest_first b a"
  by (auto simp: lv_newest_first_def)

lemma lv_newest_first_trans: "lv_newest_first a b \<Longrightarrow> lv_newest_first b c \<Longrightarrow> lv_newest_first a c"
  by (auto simp: lv_newest_first_def)

lemma tasks_get_all_sorted: "tasks_get_all company_id q d = Inr vs \<Longrightarrow> sorted_wrt tv_order vs"
proof -
  have "sorted_wrt tv_order (order_by tv_order xs)" for xs
    by (rule sorted_order_by) (rule tv_order_total, erule tv_order_trans, assumption)
  then show "tasks_get_all company_id q d = Inr vs \<Longrightarrow> sorted_wrt tv_order vs"
    by (auto simp: tasks_get_all_def sorted_wrt_take split: option.splits)
qed

lemma contacts_get_all_sorted:
  "contacts_get_all company_id q d = Inr vs \<Longrightarrow> sorted_wrt cv_newest_first vs"
proof -
  have "sorted_wrt cv_newest_first (order_by cv_newest_first xs)" for xs
    by (rule sorted_order_by)
      (rule cv_newest_first_total, erule cv_newest_first_trans, assumption)
  then show "contacts_get_all company_id q d = Inr vs \<Longrightarrow> sorted_wrt cv_newest_first vs"
    by (auto simp: contacts_get_all_def sorted_wrt_take split: option.splits)
qed

lemma leads_get_all_sorted:
  "leads_get_all company_id q d = Inr vs \<Longrightarrow> sorted_wrt lv_newest_first vs"
proof -
  have "sorted_wrt lv_newest_first (order_by lv_newest_first xs)" for xs
    by (rule sorted_order_by)
      (rule lv_newest_first_total, erule lv_newest_first_trans, assumption)
  then show "leads_get_all company_id q d = Inr vs \<Longrightarrow> sorted_wrt lv_newest_first vs"
    by (auto simp: leads_get_all_def sorted_wrt_take split: option.splits)
qed

lemma priority_rank_simps:
  "priority_rank (Some ''high'') = Some 1"
  "priority_rank (Some ''medium'') = Some 2"
  "priority_rank (Some ''low'') = Some 3"
  by (simp_all add: priority_rank_def)

lemma tv_order_spelled:
  assumes "tv_order a b"
  shows "(tv_priority a = Some ''medium'' \<longrightarrow> tv_priority b \<noteq> Some ''high'') \<and>
         (tv_priority a = Some ''low'' \<longrightarrow>
            tv_priority b \<noteq> Some ''high'' \<and> tv_priority b \<noteq> Some ''medium'') \<and>
         (tv_priority a = tv_priority b \<longrightarrow>
            (tv_due_date a = None \<longrightarrow> tv_due_date b = None) \<and>
            (\<forall>x y. tv_due_date a = Some x \<and> tv_due_date b = Some y \<longrightarrow> x \<le> y)) \<and>
         (tv_priority a = tv_priority b \<and> tv_due_date a = tv_due_date b \<longrightarrow>
            tv_created_at b \<le> tv_created_at a)"
  using assms unfolding tv_order_def
  by (auto simp: priority_rank_simps nulls_last_less_def split: option.splits)

lemma order_by_three:
  assumes "tv_priority a = Some ''low''" "tv_priority b = Some ''high''"
    "tv_priority c = Some ''medium''"
  shows "order_by tv_order [a, b, c] = [b, c, a]"
  using assms
  by (simp add: order_by_def tv_order_def priority_rank_simps nulls_last_less_def)


lemma task_view_fields:
  "tv_id (task_view j) = t_id (fst j)"
  "tv_priority (task_view j) = t_priority (fst j)"
  "tv_due_date (task_view j) = t_due_date (fst j)"
  "tv_created_at (task_view j) = t_created_at (fst j)"
  "tv_contact_id (task_view j) = t_contact_id (fst j)"
  "tv_contact_name (task_view j) = snd j"
  by (cases j; simp add: task_view_def)+

text \<open>
  C6. The task list is sorted along the ORDER BY clause: a task of lower severity
  never stands before one of higher severity (high, then medium, then low); among
  tasks of the same priority a dated task stands before an undated one and due dates
  ascend; among tasks of the same priority and due date, created_at descends. Three
  selected tasks with priorities low, high and medium come back as high, medium, low.
  The contact list and the lead list are sorted by created_at descending.
\<close>

theorem list_ordering:
  "(tasks_get_all company_id tq d = Inr ts \<longrightarrow>
      sorted_wrt tv_order ts \<and>
      (\<forall>i j. i < j \<and> j < length ts \<longrightarrow>
         (tv_priority (ts ! i) = Some ''medium'' \<longrightarrow> tv_priority (ts ! j) \<noteq> Some ''high'') \<and>
         (tv_priority (ts ! i) = Some ''low'' \<longrightarrow>
            tv_priority (ts ! j) \<noteq> Some ''high'' \<and> tv_priority (ts ! j) \<noteq> Some ''medium'') \<and>
         (tv_priority (ts ! i) = tv_priority (ts ! j) \<longrightarrow>
            (tv_due_date (ts ! i) = None \<longrightarrow> tv_due_date (ts ! j) = None) \<and>
            (\<forall>x y. tv_due_date (ts ! i) = Some x \<and> tv_due_date (ts ! j) = Some y \<longrightarrow> x \<le> y)) \<and>
         (tv_priority (ts ! i) = tv_priority (ts ! j) \<and>
          tv_due_date (ts ! i) = tv_due_date (ts ! j) \<longrightarrow>
            tv_created_at (ts ! j) \<le> tv_created_at (ts ! i)))) \<and>
   (filter (\<lambda>j. tasks_where company_id tq (fst j)) (tasks_joined d) = [a, b, c] \<and>
    t_priority (fst a) = Some ''low'' \<and> t_priority (fst b) = Some ''high'' \<and>
    t_priority (fst c) = Some ''medium'' \<and> sql_limit (tq_limit tq) = Some n \<and> 3 \<le> n \<longrightarrow>
      tasks_get_all company_id tq d = Inr [task_view b, task_view c, task_view a]) \<and>
   (contacts_get_all company_id cq d = Inr cs \<longrightarrow>
      (\<forall>i j. i < j \<and> j < length cs \<longrightarrow> cv_created_at (cs ! j) \<le> cv_created_at (cs ! i))) \<and>
   (leads_get_all company_id lq d = Inr ls \<longrightarrow>
      (\<forall>i j. i < j \<and> j < length ls \<longrightarrow> lv_created_at (ls ! j) \<le> lv_created_at (ls ! i)))"
  (is "?T \<and> ?E \<and> ?C \<and> ?L")
proof -
  have T: ?T
  proof
    assume "tasks_get_all company_id tq d = Inr ts"
    then have s: "sorted_wrt tv_order ts" by (rule tasks_get_all_sorted)
    then have "tv_order (ts ! i) (ts ! j)" if "i < j" "j < length ts" for i j
      using that by (simp add: sorted_wrt_iff_nth_less)
    with s show "sorted_wrt tv_order ts \<and>
      (\<forall>i j. i < j \<and> j < length ts \<longrightarrow>
         (tv_priority (ts ! i) = Some ''medium'' \<longrightarrow> tv_priority (ts ! j) \<noteq> Some ''high'') \<and>
         (tv_priority (ts ! i) = Some ''low'' \<longrightarrow>
            tv_priority (ts ! j) \<noteq> Some ''high'' \<and> tv_priority (ts ! j) \<noteq> Some ''medium'') \<and>
         (tv_priority (ts ! i) = tv_priority (ts ! j) \<longrightarrow>
            (tv_due_date (ts ! i) = None \<longrightarrow> tv_due_date (ts ! j) = None) \<and>
            (\<forall>x y. tv_due_date (ts ! i) = Some x \<and> tv_due_date (ts ! j) = Some y \<longrightarrow> x \<le> y)) \<and>
         (tv_priority (ts ! i) = tv_priority (ts ! j) \<and>
          tv_due_date (ts ! i) = tv_due_date (ts ! j) \<longrightarrow>
            tv_created_at (ts ! j) \<le> tv_created_at (ts ! i)))"
      using tv_order_spelled by blast
  qed
  have E: ?E
  proof
    assume h: "filter (\<lambda>j. tasks_where company_id tq (fst j)) (tasks_joined d) = [a, b, c] \<and>
      t_priority (fst a) = Some ''low'' \<and> t_priority (fst b) = Some ''high'' \<and>
      t_priority (fst c) = Some ''medium'' \<and> sql_limit (tq_limit tq) = Some n \<and> 3 \<le> n"
    then have "tv_priority (task_view a) = Some ''low''" "tv_priority (task_view b) = Some ''high''"
      "tv_priority (task_view c) = Some ''medium''"
      by (simp_all add: task_view_fields)
    then have "order_by tv_order [task_view a, task_view b, task_view c] =
        [task_view b, task_view c, task_view a]"
      by (rule order_by_three)
    with h show "tasks_get_all company_id tq d = Inr [task_view b, task_view c, task_view a]"
      by (simp add: tasks_get_all_def)
  qed
  have C: ?C
  proof
    assume "contacts_get_all company_id cq d = Inr cs"
    then have "sorted_wrt cv_newest_first cs" by (rule contacts_get_all_sorted)
    then show "\<forall>i j. i < j \<and> j < length cs \<longrightarrow> cv_created_at (cs ! j) \<le> cv_created_at (cs ! i)"
      by (simp add: sorted_wrt_iff_nth_less cv_newest_first_def)
  qed
  have L: ?L
  proof
    assume "leads_get_all company_id lq d = Inr ls"
    then have "sorted_wrt lv_newest_first ls" by (rule leads_get_all_sorted)
    then show "\<forall>i j. i < j \<and> j < length ls \<longrightarrow> lv_created_at (ls ! j) \<le> lv_created_at (ls ! i)"
      by (simp add: sorted_wrt_iff_nth_less lv_newest_first_def)
  qed
  from T E C L show ?thesis by (intro conjI)
qed


theorem list_ordering_witness:
  "(\<exists>ts. tasks_get_all (Some 1) all_tasks (demo_db\<lparr>tasks := three_tasks\<rparr>) = Inr ts \<and>
      map tv_priority ts = [Some ''high'', Some ''medium'', Some ''low'']) \<and>
   (\<exists>ts. tasks_get_all (Some 1) all_tasks demo_db = Inr ts \<and> map tv_id ts = [31, 32] \<and>
      sorted_wrt tv_order ts) \<and>
   (\<exists>cs. contacts_get_all (Some 1) all_contacts demo_db = Inr cs \<and> map cv_id cs = [12, 11] \<and>
      cv_created_at (cs ! 1) \<le> cv_created_at (cs ! 0)) \<and>
   (\<exists>ls. leads_get_all (Some 1) all_leads demo_db = Inr ls \<and> map lv_id ls = [22, 21] \<and>
      lv_created_at (ls ! 1) \<le> lv_created_at (ls ! 0))"
proof -
  let ?d3 = "demo_db\<lparr>tasks := three_tasks\<rparr>"
  let ?a = "(three_tasks ! 0, None :: string option)"
  let ?b = "(three_tasks ! 1, None :: string option)"
  let ?c = "(three_tasks ! 2, None :: string option)"
  have e: "filter (\<lambda>j. tasks_where (Some 1) all_tasks (fst j)) (tasks_joined ?d3) = [?a, ?b, ?c] \<and>
      t_priority (fst ?a) = Some ''low'' \<and> t_priority (fst ?b) = Some ''high'' \<and>
      t_priority (fst ?c) = Some ''medium'' \<and> sql_limit (tq_limit all_tasks) = Some 100 \<and>
      (3::nat) \<le> 100"
    by (simp add: tasks_joined_def left_join_contacts_def tasks_where_def all_tasks_def
        three_tasks_def demo_db_def)
  from list_ordering[where company_id = "Some 1" and tq = all_tasks and d = ?d3 and n = 100,
      THEN conjunct2, THEN conjunct1, THEN mp, OF e]
  have "tasks_get_all (Some 1) all_tasks ?d3 = Inr [task_view ?b, task_view ?c, task_view ?a]" .
  moreover have "map tv_priority [task_view ?b, task_view ?c, task_view ?a] =
      [Some ''high'', Some ''medium'', Some ''low'']"
    by (simp add: task_view_fields three_tasks_def)
  ultimately have 1: "\<exists>ts. tasks_get_all (Some 1) all_tasks ?d3 = Inr ts \<and>
      map tv_priority ts = [Some ''high'', Some ''medium'', Some ''low'']"
    by (intro exI[of _ "[task_view ?b, task_view ?c, task_view ?a]"] conjI)
  have "\<exists>ts. tasks_get_all (Some 1) all_tasks demo_db = Inr ts \<and> map tv_id ts = [31, 32]"
    by (simp add: tasks_get_all_def tasks_joined_def left_join_contacts_def tasks_where_def
        all_tasks_def demo_db_def demo_tasks_def demo_contacts_def order_by_def tv_order_def
        priority_rank_def nulls_last_less_def task_view_def)
  then obtain ts where ts: "tasks_get_all (Some 1) all_tasks demo_db = Inr ts"
      "map tv_id ts = [31, 32]"
    by (elim exE conjE)
  from list_ordering[where company_id = "Some 1" and tq = all_tasks and d = demo_db and ts = ts,
      THEN conjunct1, THEN mp, OF ts(1)]
  have "sorted_wrt tv_order ts" by (rule conjunct1)
  with ts have 2: "\<exists>ts. tasks_get_all (Some 1) all_tasks demo_db = Inr ts \<and>
      map tv_id ts = [31, 32] \<and> sorted_wrt tv_order ts"
    by (intro exI[of _ ts] conjI)
  have "\<exists>cs. contacts_get_all (Some 1) all_contacts demo_db = Inr cs \<and> map cv_id cs = [12, 11]"
    by (simp add: contacts_get_all_def contacts_where_def all_contacts_def demo_db_def
        demo_contacts_def order_by_def cv_newest_first_def contact_view_def)
  then obtain cs where cs: "contacts_get_all (Some 1) all_contacts demo_db = Inr cs"
      "map cv_id cs = [12, 11]"
    by (elim exE conjE)
  have "length cs = length (map cv_id cs)" by simp
  then have "length cs = 2" unfolding cs(2) by simp
  with list_ordering[where company_id = "Some 1" and cq = all_contacts and d = demo_db and cs = cs,
      THEN conjunct2, THEN conjunct2, THEN conjunct1, THEN mp, OF cs(1)]
  have "cv_created_at (cs ! 1) \<le> cv_created_at (cs ! 0)" by simp
  with cs have 3: "\<exists>cs. contacts_get_all (Some 1) all_contacts demo_db = Inr cs \<and>
      map cv_id cs = [12, 11] \<and> cv_created_at (cs ! 1) \<le> cv_created_at (cs ! 0)"
    by (intro exI[of _ cs] conjI)
  have "\<exists>ls. leads_get_all (Some 1) all_leads demo_db = Inr ls \<and> map lv_id ls = [22, 21]"
    by (simp add: leads_get_all_def leads_where_def all_leads_def demo_db_def
        demo_leads_def order_by_def lv_newest_first_def lead_view_def)
  then obtain ls where ls: "leads_get_all (Some 1) all_leads demo_db = Inr ls"
      "map lv_id ls = [22, 21]"
    by (elim exE conjE)
  have "length ls = length (map lv_id ls)" by simp
  then have "length ls = 2" unfolding ls(2) by simp
  with list_ordering[where company_id = "Some 1" and lq = all_leads and d = demo_db and ls = ls,
      THEN conjunct2, THEN conjunct2, THEN conjunct2, THEN mp, OF ls(1)]
  have "lv_created_at (ls ! 1) \<le> lv_created_at (ls ! 0)" by simp
  with ls have 4: "\<exists>ls. leads_get_all (Some 1) all_leads demo_db = Inr ls \<and>
      map lv_id ls = [22, 21] \<and> lv_created_at (ls ! 1) \<le> lv_created_at (ls ! 0)"
    by (intro exI[of _ ls] conjI)
  from 1 2 3 4 show ?thesis by (intro conjI)
qed

subsection \<open>The lead pipeline\<close>
















subsection \<open>Update: full replace\<close>
























subsection \<open>The contact of a task\<close>







subsection \<open>Tenant isolation\<close>














paragraph \<open>The rows of other companies stay as they are\<close>












paragraph \<open>What the reads return\<close>












paragraph \<open>An id of another company matches no row\<close>










paragraph \<open>The routes keep the store scoped\<close>















paragraph \<open>What the writes return\<close>


















end
